theory Spec2Isabelle
  imports Main
begin

chapter \<open>The embed pipeline of the chat extension\<close>

text \<open>
  A shallow embedding of the extension's content script (link classification in
  \<open>tryEmbed\<close>, insertion through \<open>injectBelow\<close> and \<open>safeAppendEmbed\<close>, the tweet card
  renderer, the media pager, the spoiler overlay and the thumbnail refresh timers) and of
  the background worker's tweet resolution. What the browser supplies (URL parsing, HTML
  and JSON parsing, network replies, the clock) enters as parameters; exceptions are
  values of type \<open>exn\<close>. The definitions come first, the results about them after.
\<close>

section \<open>Strings as the content script reads them\<close>

text \<open>
  JavaScript strings are modelled as \<^typ>\<open>string\<close>. URL components (host names and
  percent-encoded paths) are ASCII, so \<open>toLowerCase\<close> is modelled on the ASCII letters and
  \<open>trim\<close> on the ASCII white space. Each regular expression of the source is written out
  as the string test it performs.
\<close>

definition toLowerChar :: "char \<Rightarrow> char" where
  "toLowerChar c =
     (if 65 \<le> (of_char c :: nat) \<and> (of_char c :: nat) \<le> 90
      then char_of ((of_char c :: nat) + 32) else c)"

definition toLowerCase :: "string \<Rightarrow> string" where
  "toLowerCase s = map toLowerChar s"

fun startsWith :: "string \<Rightarrow> string \<Rightarrow> bool" where
  "startsWith s [] = True"
| "startsWith [] (p # ps) = False"
| "startsWith (c # cs) (p # ps) = (c = p \<and> startsWith cs ps)"

definition endsWith :: "string \<Rightarrow> string \<Rightarrow> bool" where
  "endsWith s p = startsWith (rev s) (rev p)"

text \<open>The rest of \<open>s\<close> after the prefix \<open>p\<close>, when \<open>s\<close> starts with \<open>p\<close>.\<close>

fun afterPrefix :: "string \<Rightarrow> string \<Rightarrow> string option" where
  "afterPrefix [] s = Some s"
| "afterPrefix (p # ps) [] = None"
| "afterPrefix (p # ps) (c # cs) = (if c = p then afterPrefix ps cs else None)"

text \<open>An unanchored regular expression succeeds when it matches at some position.\<close>

fun anyTail :: "(string \<Rightarrow> bool) \<Rightarrow> string \<Rightarrow> bool" where
  "anyTail P [] = P []"
| "anyTail P (c # cs) = (P (c # cs) \<or> anyTail P cs)"

definition strIncludes :: "string \<Rightarrow> string \<Rightarrow> bool" where
  "strIncludes s p = anyTail (\<lambda>t. startsWith t p) s"

definition isDigit :: "char \<Rightarrow> bool" where
  "isDigit c = (48 \<le> (of_char c :: nat) \<and> (of_char c :: nat) \<le> 57)"

text \<open>The class \<open>[a-z0-9_]\<close> under the \<open>i\<close> flag.\<close>

definition isWordChar :: "char \<Rightarrow> bool" where
  "isWordChar c =
     (let n = (of_char c :: nat) in
        (97 \<le> n \<and> n \<le> 122) \<or> (65 \<le> n \<and> n \<le> 90) \<or> (48 \<le> n \<and> n \<le> 57) \<or> n = 95)"

definition isSpace :: "char \<Rightarrow> bool" where
  "isSpace c = (let n = (of_char c :: nat) in n = 32 \<or> (9 \<le> n \<and> n \<le> 13))"

definition trim :: "string \<Rightarrow> string" where
  "trim s = rev (dropWhile isSpace (rev (dropWhile isSpace s)))"

text \<open>\<open>s.split(sep)\<close> for a one-character separator: always at least one part.\<close>

fun splitOn :: "char \<Rightarrow> string \<Rightarrow> string list" where
  "splitOn sep [] = [[]]"
| "splitOn sep (c # cs) =
     (if c = sep then [] # splitOn sep cs
      else (case splitOn sep cs of
              [] \<Rightarrow> [[c]]
            | p # ps \<Rightarrow> (c # p) # ps))"

text \<open>\<open>/\.(e1|e2|...)(?:$|\?)/\<close>: a dot, one of the extensions, then the end or a \<open>?\<close>.\<close>

definition extThenEndOrQuery :: "string list \<Rightarrow> string \<Rightarrow> bool" where
  "extThenEndOrQuery exts s =
     anyTail (\<lambda>t. list_ex (\<lambda>e. case afterPrefix (CHR ''.'' # e) t of
                                  None \<Rightarrow> False
                                | Some r \<Rightarrow> (case r of [] \<Rightarrow> True | c # _ \<Rightarrow> c = CHR ''?'')) exts) s"

text \<open>\<open>/(^|\.)dom$/i\<close> on a host name: the domain itself or any sub-domain of it.\<close>

definition hostIsOrUnder :: "string \<Rightarrow> string \<Rightarrow> bool" where
  "hostIsOrUnder d h =
     (toLowerCase h = d \<or> endsWith (toLowerCase h) (CHR ''.'' # d))"

text \<open>\<open>h.replace(/^www\./, '')\<close>\<close>

definition stripWww :: "string \<Rightarrow> string" where
  "stripWww h = (case afterPrefix ''www.'' h of Some r \<Rightarrow> r | None \<Rightarrow> h)"

section \<open>Parsed URLs and the content script's allow-list\<close>

text \<open>
  The browser's \<open>URL\<close> object, reduced to the fields the content script reads.
  \<open>searchParams\<close> lists the query's pairs in order; \<open>get\<close> returns the first match.
\<close>

record url =
  href :: string
  hostname :: string
  pathname :: string
  searchParams :: "(string \<times> string) list"
  hash :: string

definition MEDIA_WHITELIST :: "string list" where
  "MEDIA_WHITELIST =
     [''cdn.syndication.twimg.com'', ''destiny.gg/embed/chat*'', ''twitter.com'',
      ''mobile.twitter.com'', ''pic.twitter.com'', ''x.com'', ''t.co'', ''nitter.net'',
      ''fxtwitter.com'', ''vxtwitter.com'', ''imgur.com'', ''i.imgur.com'', ''flickr.com'',
      ''youtube.com'', ''youtu.be'', ''vimeo.com'', ''giphy.com'', ''media.giphy.com'',
      ''tenor.com'', ''media.tenor.com'', ''streamable.com'', ''dropbox.com'',
      ''*.dropboxusercontent.com'', ''onedrive.live.com'', ''photos.google.com'',
      ''lh3.googleusercontent.com'', ''icloud.com'', ''res.cloudinary.com'',
      ''s3.amazonaws.com'', ''cdn.discordapp.com'', ''i.4cdn.org'', ''kick.com'',
      ''twitch.tv'', ''www.twitch.tv'', ''files.catbox.moe'', ''destiny.gg/bigscreen*'',
      ''packaged-media.redd.it'', ''reddit.com'', ''i.redd.it'', ''preview.redd.it'',
      ''v.redd.it'', ''cdn.syndication.twimg.com'', ''publish.twitter.com'',
      ''pbs.twimg.com'', ''video.twimg.com'', ''i.kym-cdn.com'']"

text \<open>\<open>MEDIA_WHITELIST.has(host)\<close>: exact membership of the set of strings.\<close>

definition whitelistHas :: "string \<Rightarrow> bool" where
  "whitelistHas h = List.member MEDIA_WHITELIST h"

definition searchGet :: "url \<Rightarrow> string \<Rightarrow> string option" where
  "searchGet u k = map_of (searchParams u) k"

definition isTwitterImageUrl :: "url \<Rightarrow> bool" where
  "isTwitterImageUrl u =
     (let h = stripWww (toLowerCase (hostname u)) in
      if h \<noteq> ''pbs.twimg.com'' then False
      else (let fmt = toLowerCase (case searchGet u ''format'' of None \<Rightarrow> '''' | Some v \<Rightarrow> v)
            in fmt = ''jpg'' \<or> fmt = ''jpeg'' \<or> fmt = ''png'' \<or> fmt = ''webp'' \<or> fmt = ''gif''))"

definition isTwitterVideoUrl :: "url \<Rightarrow> bool" where
  "isTwitterVideoUrl u =
     (let h = stripWww (toLowerCase (hostname u)) in
      if h \<noteq> ''video.twimg.com'' then False
      else (let path = toLowerCase (pathname u)
            in extThenEndOrQuery [''mp4''] path \<or> strIncludes path ''/vid/''
               \<or> strIncludes path ''/mp4/''))"

definition isTweetUrlHost :: "string \<Rightarrow> bool" where
  "isTweetUrlHost hn =
     (let h = stripWww (toLowerCase hn) in
      h = ''twitter.com'' \<or> h = ''x.com'' \<or> h = ''mobile.twitter.com'' \<or>
      h = ''fxtwitter.com'' \<or> h = ''vxtwitter.com'' \<or> h = ''nitter.net'')"

text \<open>\<open>/\/status\/\d+/\<close> and \<open>/\/i\/web\/status\/\d+/\<close>\<close>

definition prefixThenDigit :: "string \<Rightarrow> string \<Rightarrow> bool" where
  "prefixThenDigit p s =
     anyTail (\<lambda>t. case afterPrefix p t of Some (d # _) \<Rightarrow> isDigit d | _ \<Rightarrow> False) s"

text \<open>\<open>MEDIA_EXT = /\.(png|jpe?g|gif|webp|mp4|webm|mov)$/i\<close>\<close>

definition MEDIA_EXT :: "string \<Rightarrow> bool" where
  "MEDIA_EXT p =
     list_ex (\<lambda>e. endsWith (toLowerCase p) (CHR ''.'' # e))
       [''png'', ''jpg'', ''jpeg'', ''gif'', ''webp'', ''mp4'', ''webm'', ''mov'']"

text \<open>\<open>(url.pathname.split(".").pop() || "").toLowerCase()\<close>\<close>

definition fileExtOf :: "string \<Rightarrow> string" where
  "fileExtOf p = toLowerCase (last (splitOn (CHR ''.'') p))"

text \<open>\<open>pathname.split("/").filter(Boolean)\<close>\<close>

definition pathParts :: "string \<Rightarrow> string list" where
  "pathParts p = filter (\<lambda>s. s \<noteq> []) (splitOn (CHR ''/'') p)"

text \<open>
  \<open>extractTwitch\<close> and \<open>extractKick\<close> return the pair \<open>{channel, video}\<close>; \<open>null\<close> is
  \<open>None\<close>.
\<close>

definition extractTwitch :: "url \<Rightarrow> string option \<times> string option" where
  "extractTwitch u =
     (case pathParts (pathname u) of
        [] \<Rightarrow> (None, None)
      | p0 # rest \<Rightarrow>
          (if p0 = ''videos'' \<and> (case rest of [] \<Rightarrow> False | p1 # _ \<Rightarrow> True)
           then (None, Some (hd rest))
           else (Some p0, None)))"

definition extractKick :: "url \<Rightarrow> string option \<times> string option" where
  "extractKick u =
     (case pathParts (pathname u) of
        [] \<Rightarrow> (None, None)
      | p0 # rest \<Rightarrow>
          (if (p0 = ''video'' \<or> p0 = ''videos'') \<and> (case rest of [] \<Rightarrow> False | p1 # _ \<Rightarrow> True)
           then (None, Some (hd rest))
           else (Some p0, None)))"

text \<open>\<open>/\/shorts\/([^/]+)/\<close>: the first place where \<open>/shorts/\<close> is followed by a
  character other than a slash; the capture is the run of such characters.\<close>

fun shortsId :: "string \<Rightarrow> string option" where
  "shortsId [] = None"
| "shortsId (c # cs) =
     (case afterPrefix ''/shorts/'' (c # cs) of
        Some r \<Rightarrow> (if takeWhile (\<lambda>x. x \<noteq> CHR ''/'') r \<noteq> []
                   then Some (takeWhile (\<lambda>x. x \<noteq> CHR ''/'') r) else shortsId cs)
      | None \<Rightarrow> shortsId cs)"

definition extractYouTubeId :: "url \<Rightarrow> string option" where
  "extractYouTubeId u =
     (if hostname u = ''youtu.be'' then Some (drop 1 (pathname u))
      else if strIncludes (hostname u) ''youtube.com'' then
        (case searchGet u ''v'' of
           Some v \<Rightarrow> (if v \<noteq> [] then Some v else shortsId (pathname u))
         | None \<Rightarrow> shortsId (pathname u))
      else None)"

text \<open>
  \<open>extractDggBigscreenTwitch\<close>: the hash form \<open>/^#twitch\/([a-z0-9_]+)/i\<close> on a
  destiny.gg bigscreen link, then the link text form \<open>/^#twitch\/([a-z0-9_]+)$/i\<close> on any
  link.
\<close>

definition twitchHashChannel :: "string \<Rightarrow> string option" where
  "twitchHashChannel h =
     (if startsWith (toLowerCase h) ''#twitch/'' \<and> takeWhile isWordChar (drop 8 h) \<noteq> []
      then Some (takeWhile isWordChar (drop 8 h)) else None)"

definition twitchTextChannel :: "string \<Rightarrow> string option" where
  "twitchTextChannel t =
     (if startsWith (toLowerCase t) ''#twitch/'' \<and> drop 8 t \<noteq> [] \<and> list_all isWordChar (drop 8 t)
      then Some (drop 8 t) else None)"

definition extractDggBigscreenTwitch :: "url \<Rightarrow> string \<Rightarrow> string option" where
  "extractDggBigscreenTwitch u linkText =
     (let isDgg = (hostIsOrUnder ''destiny.gg'' (hostname u) \<and> startsWith (pathname u) ''/bigscreen'');
          fromHash = (if isDgg \<and> hash u \<noteq> [] then twitchHashChannel (hash u) else None)
      in case fromHash of
           Some m \<Rightarrow> Some m
         | None \<Rightarrow> (let t = trim linkText in if t = [] then None else twitchTextChannel t))"

section \<open>Message containers, anchors and injected wrappers\<close>

text \<open>
  A message container is reduced to what the embed pipeline reads and writes: its text,
  its \<open>a[href]\<close> descendants in document order (\<open>querySelectorAll("a[href]")\<close>), and the
  wrappers appended to it. A wrapper is appended as the container's last child, so the
  anchors it holds follow every earlier anchor in document order. Inline styles, scroll
  corrections and the spoiler overlay are not part of this record; the scroll state and
  the overlay have their own sections below.
\<close>

datatype exn = TypeError | ReferenceError | DomError

datatype tagName = IMG | VIDEO | DIV | A | IFRAME | SPAN

record anchor =
  a_href :: string
  a_textContent :: string
  a_edggResolvedTco :: bool

record element =
  e_tag :: tagName
  e_classes :: "string list"
  e_href :: "string option"
  e_src :: "string option"
  e_data_edgg_src :: "string option"
  e_source :: "(string \<times> string) option"
  e_text :: string
  e_media :: "(tagName \<times> string) list"

record wrap =
  w_classes :: "string list"
  w_data_edgg_origin :: "string option"
  w_data_edgg_sensitivity :: "string option"
  w_media_link :: "string option"
  w_el :: element

record container =
  c_inWrap :: bool
  c_text :: string
  c_anchors :: "anchor list"
  c_wraps :: "wrap list"

record settings =
  enableTweets :: bool
  enableMedia :: bool
  enableYouTube :: bool
  enableTwitch :: bool
  enableKick :: bool
  enableInstagram :: bool
  blurMedia :: bool

text \<open>
  What \<open>tryEmbed\<close> reads from the page: the browser's URL parser relative to
  \<open>location.href\<close> (\<open>None\<close> where \<open>new URL\<close> throws), the chat's own hide settings, the
  body text of the login heuristic, and \<open>STATE.settings\<close>.
\<close>

record page =
  parseUrl :: "string \<Rightarrow> url option"
  hideNsfl :: bool
  hideNsfw :: bool
  showRemoved :: string
  bodyInnerText :: string
  stateSettings :: settings

text \<open>\<open>/\bnsfl\b/\<close> on lower-cased text: the word with no word character on either side.\<close>

fun wordAt :: "string \<Rightarrow> bool \<Rightarrow> string \<Rightarrow> bool" where
  "wordAt w prevIsWord [] = False"
| "wordAt w prevIsWord (c # cs) =
     ((\<not> prevIsWord \<and>
        (case afterPrefix w (c # cs) of
           None \<Rightarrow> False
         | Some r \<Rightarrow> (case r of [] \<Rightarrow> True | x # _ \<Rightarrow> \<not> isWordChar x)))
      \<or> wordAt w (isWordChar c) cs)"

definition getSensitivityLabel :: "container \<Rightarrow> string option" where
  "getSensitivityLabel c =
     (let text = toLowerCase (c_text c) in
      if wordAt ''nsfl'' False text then Some ''NSFL''
      else if wordAt ''nsfw'' False text then Some ''NSFW''
      else None)"

text \<open>
  \<open>e_source\<close> is the \<open>source\<close> child of a video (URL and MIME type), \<open>e_text\<close> the
  element's text content and \<open>e_media\<close> the \<open>img\<close> and \<open>video\<close> elements below it with
  their source URLs.

  The anchors a wrapper brings into the container: the link around an image, or the
  card itself when the card is an \<open>a\<close> element (its text is the overlay's title).
\<close>

definition ellipsis :: string where
  "ellipsis = [CHR 0xE2, CHR 0x80, CHR 0xA6]"

definition loadingText :: string where
  "loadingText = ''Loading'' @ ellipsis"

definition anchorsOfWrap :: "wrap \<Rightarrow> anchor list" where
  "anchorsOfWrap w =
     (case w_media_link w of
        Some h \<Rightarrow> [\<lparr>a_href = h, a_textContent = '''', a_edggResolvedTco = False\<rparr>]
      | None \<Rightarrow>
          (case e_href (w_el w) of
             Some h \<Rightarrow> [\<lparr>a_href = h, a_textContent = e_text (w_el w),
                        a_edggResolvedTco = False\<rparr>]
           | None \<Rightarrow> []))"

text \<open>\<open>container.appendChild(wrap)\<close>, the insertion \<open>safeAppendEmbed\<close> performs.\<close>

definition appendChild :: "container \<Rightarrow> wrap \<Rightarrow> container" where
  "appendChild c w =
     c\<lparr>c_wraps := c_wraps c @ [w], c_anchors := c_anchors c @ anchorsOfWrap w\<rparr>"


definition hasDataSrc :: "container \<Rightarrow> string \<Rightarrow> bool" where
  "hasDataSrc c d = list_ex (\<lambda>w. e_data_edgg_src (w_el w) = Some d) (c_wraps c)"

definition addClass :: "string \<Rightarrow> string list \<Rightarrow> string list" where
  "addClass k ks = (if List.member ks k then ks else ks @ [k])"

text \<open>
  \<open>injectBelow(container, el, originUrl, desiredWidthPx, sensitivityLabel)\<close>. Only an
  \<open>IMG\<close> or \<open>IFRAME\<close> with a non-empty \<open>src\<close> is checked against the container's
  \<open>data-edgg-src\<close> marker; every other element goes straight to the wrapper.
\<close>

definition injectBelow :: "container \<Rightarrow> element \<Rightarrow> string \<Rightarrow> string option \<Rightarrow> container" where
  "injectBelow c el originUrl sensitivityLabel =
     (let dataUrl = (if e_tag el = IMG \<or> e_tag el = IFRAME then e_src el else None);
          dup = (case dataUrl of None \<Rightarrow> False | Some d \<Rightarrow> d \<noteq> [] \<and> hasDataSrc c d)
      in if dup then c
         else
           (let el1 = (case dataUrl of
                         None \<Rightarrow> el
                       | Some d \<Rightarrow> (if d \<noteq> [] then el\<lparr>e_data_edgg_src := Some d\<rparr> else el));
                el2 = el1\<lparr>e_classes := addClass ''edgg-media'' (e_classes el1)\<rparr>;
                w = \<lparr>w_classes = [''edgg-wrap'', ''edgg-left''],
                     w_data_edgg_origin = (if originUrl \<noteq> [] then Some originUrl else None),
                     w_data_edgg_sensitivity =
                       (case sensitivityLabel of
                          None \<Rightarrow> None
                        | Some l \<Rightarrow> (if l \<noteq> [] then Some l else None)),
                     w_media_link = (if e_tag el = IMG then Some originUrl else None),
                     w_el = el2\<rparr>
            in appendChild c w))"

section \<open>The embed router \<open>tryEmbed\<close>\<close>

text \<open>
  Each branch of \<open>tryEmbed\<close> that inserts a wrapper or sends a request to the background
  worker is recorded as an effect, in the order the branches run. The container returned
  holds the wrappers inserted synchronously; the callbacks of the requests are modelled
  in the sections on the resolvers.
\<close>

datatype effect =
    ResolveTco string
  | BigscreenTwitchCard string
  | TweetCard string
  | DirectImage
  | DirectVideo
  | RedditRedirectImage
  | RedditRedirectVideo
  | ResolveImgur string
  | ResolveInstagram string
  | ResolveReddit string
  | YouTubeCard string
  | TwitchCard "string option" "string option"
  | KickCard "string option" "string option"

type_synonym outcome = "container \<times> effect list"

definition isCspBlockedHost :: "string \<Rightarrow> bool" where
  "isCspBlockedHost hn =
     (let h = toLowerCase hn in
      (h = ''files.catbox.moe'' \<or> endsWith h ''.files.catbox.moe'') \<or>
      (h = ''video.twimg.com'' \<or> endsWith h ''.video.twimg.com'') \<or>
      (h = ''v.redd.it'' \<or> endsWith h ''.v.redd.it'') \<or>
      endsWith h ''cdninstagram.com'')"

definition imageExts :: "string list" where
  "imageExts = [''png'', ''jpg'', ''jpeg'', ''gif'', ''webp'']"

definition videoExts :: "string list" where
  "videoExts = [''mp4'', ''webm'', ''mov'']"

definition newImg :: "string \<Rightarrow> element" where
  "newImg s = \<lparr>e_tag = IMG, e_classes = [''edgg-media''], e_href = None, e_src = Some s,
              e_data_edgg_src = None, e_source = None, e_text = [], e_media = []\<rparr>"

definition newVideo :: "(string \<times> string) option \<Rightarrow> element" where
  "newVideo so = \<lparr>e_tag = VIDEO, e_classes = [''edgg-media''], e_href = None, e_src = None,
                 e_data_edgg_src = None, e_source = so, e_text = [], e_media = []\<rparr>"

definition newTweetCard :: element where
  "newTweetCard = \<lparr>e_tag = DIV, e_classes = [''edgg-embed'', ''edgg-tweet''], e_href = None,
                   e_src = None, e_data_edgg_src = None, e_source = None,
                   e_text = ''Loading tweet'' @ ellipsis, e_media = []\<rparr>"

text \<open>The stream cards are \<open>a\<close> elements put in a plain \<open>edgg-wrap\<close> and appended through
  \<open>safeAppendEmbed\<close> directly, without \<open>injectBelow\<close>.\<close>

definition cardWrap :: "string \<Rightarrow> string \<Rightarrow> string \<Rightarrow> wrap" where
  "cardWrap cls h thumbSrc =
     \<lparr>w_classes = [''edgg-wrap''], w_data_edgg_origin = None, w_data_edgg_sensitivity = None,
      w_media_link = None,
      w_el = \<lparr>e_tag = A, e_classes = [''edgg-card'', cls], e_href = Some h, e_src = None,
               e_data_edgg_src = None, e_source = None, e_text = loadingText,
               e_media = [(IMG, thumbSrc)]\<rparr>\<rparr>"

definition isWhitelisted :: "url \<Rightarrow> bool" where
  "isWhitelisted u = (whitelistHas (hostname u) \<or> isTwitterImageUrl u \<or> isTwitterVideoUrl u)"

definition looksLikeMediaPath :: "url \<Rightarrow> bool" where
  "looksLikeMediaPath u = (MEDIA_EXT (pathname u) \<or> isTwitterImageUrl u \<or> isTwitterVideoUrl u)"

definition isTweet :: "url \<Rightarrow> bool" where
  "isTweet u =
     (isTweetUrlHost (hostname u) \<and>
      (prefixThenDigit ''/status/'' (pathname u) \<or> prefixThenDigit ''/i/web/status/'' (pathname u)))"

definition isPicShort :: "url \<Rightarrow> bool" where
  "isPicShort u = (toLowerCase (stripWww (hostname u)) = ''pic.twitter.com'')"

text \<open>The direct media branch: \<open>None\<close> when the branch does not return.\<close>

definition mediaStep :: "page \<Rightarrow> anchor \<Rightarrow> url \<Rightarrow> string option \<Rightarrow> container \<Rightarrow> outcome option" where
  "mediaStep p a u sensitivity c =
     (if enableMedia (stateSettings p) \<and> isWhitelisted u \<and> looksLikeMediaPath u then
        (let fileExt = fileExtOf (pathname u);
             isTwImg = isTwitterImageUrl u;
             isTwVid = isTwitterVideoUrl u
         in if isTwImg \<or> List.member imageExts fileExt then
              Some (injectBelow c (newImg (a_href a)) (a_href a) sensitivity, [DirectImage])
            else if isTwVid \<or> List.member videoExts fileExt then
              (let mime = (if isTwVid \<or> fileExt = ''mp4'' then ''video/mp4''
                           else if fileExt = ''webm'' then ''video/webm''
                           else ''video/quicktime'');
                   vid = newVideo (if isCspBlockedHost (hostname u) then None
                                   else Some (a_href a, mime))
               in Some (injectBelow c vid (a_href a) sensitivity, [DirectVideo]))
            else None)
      else None)"

text \<open>The Reddit redirector \<open>/media?url=...\<close>: the target is parsed inside a \<open>try\<close>, so a
  target that does not parse falls through to the later branches.\<close>

definition redditRedirectStep ::
  "page \<Rightarrow> anchor \<Rightarrow> url \<Rightarrow> string option \<Rightarrow> container \<Rightarrow> outcome option" where
  "redditRedirectStep p a u sensitivity c =
     (if enableMedia (stateSettings p) \<and> hostIsOrUnder ''reddit.com'' (hostname u)
         \<and> pathname u = ''/media'' then
        (case searchGet u ''url'' of
           None \<Rightarrow> None
         | Some target \<Rightarrow>
             (if target = [] then None
              else (case parseUrl p target of
                      None \<Rightarrow> None
                    | Some mu \<Rightarrow>
                        (let mhost = stripWww (hostname mu);
                             mExt = fileExtOf (pathname mu);
                             okHost = (whitelistHas mhost \<or> hostIsOrUnder ''redd.it'' mhost)
                         in if okHost then
                              (if List.member imageExts mExt then
                                 Some (injectBelow c (newImg (href mu)) (a_href a) sensitivity,
                                       [RedditRedirectImage])
                               else if List.member videoExts mExt then
                                 (let mime = (if mExt = ''mp4'' then ''video/mp4''
                                              else if mExt = ''webm'' then ''video/webm''
                                              else ''video/quicktime'')
                                  in Some (injectBelow c (newVideo (Some (href mu, mime)))
                                             (a_href a) sensitivity,
                                           [RedditRedirectVideo]))
                               else None)
                            else None))))
      else None)"

text \<open>The page resolvers: each sends one request and returns.\<close>

definition resolverStep :: "page \<Rightarrow> anchor \<Rightarrow> url \<Rightarrow> container \<Rightarrow> outcome option" where
  "resolverStep p a u c =
     (if enableMedia (stateSettings p) \<and> hostIsOrUnder ''imgur.com'' (hostname u)
         \<and> \<not> looksLikeMediaPath u then
        Some (c, [ResolveImgur (a_href a)])
      else if enableInstagram (stateSettings p) \<and> hostIsOrUnder ''instagram.com'' (hostname u) then
        Some (c, [ResolveInstagram (a_href a)])
      else if enableMedia (stateSettings p) \<and> hostIsOrUnder ''reddit.com'' (hostname u)
              \<and> strIncludes (pathname u) ''/comments/'' then
        Some (c, [ResolveReddit (a_href a)])
      else None)"

text \<open>The stream cards, inside \<open>if (isWhitelisted)\<close>.\<close>

definition streamStep :: "page \<Rightarrow> anchor \<Rightarrow> url \<Rightarrow> container \<Rightarrow> outcome" where
  "streamStep p a u c =
     (if isWhitelisted u then
        (let yt = (if enableYouTube (stateSettings p)
                      \<and> (strIncludes (hostname u) ''youtube.com'' \<or> strIncludes (hostname u) ''youtu.be'')
                   then (case extractYouTubeId u of
                           None \<Rightarrow> None
                         | Some ytId \<Rightarrow> (if ytId = [] then None else Some ytId))
                   else None)
         in case yt of
              Some ytId \<Rightarrow> (appendChild c (cardWrap ''edgg-card-yt'' (a_href a)
                               (''https://i.ytimg.com/vi/'' @ ytId @ ''/hqdefault.jpg'')),
                            [YouTubeCard ytId])
            | None \<Rightarrow>
                (let tw = (if enableTwitch (stateSettings p) \<and> strIncludes (hostname u) ''twitch.tv''
                           then (case extractTwitch u of
                                   (None, None) \<Rightarrow> None
                                 | cv \<Rightarrow> Some cv)
                           else None)
                 in case tw of
                      Some (channel, video) \<Rightarrow>
                        (appendChild c (cardWrap ''edgg-card-tw'' (a_href a) []), [TwitchCard channel video])
                    | None \<Rightarrow>
                        (if enableKick (stateSettings p) \<and> hostIsOrUnder ''kick.com'' (hostname u) then
                           (case extractKick u of
                              (None, None) \<Rightarrow> (c, [])
                            | (kChan, kVid) \<Rightarrow>
                                (appendChild c (cardWrap ''edgg-card-kick'' (a_href a) []),
                                 [KickCard kChan kVid]))
                         else (c, []))))
      else (c, []))"

text \<open>Everything after the t.co hop: the bigscreen card returns at once; the tweet card
  does not return, so the later branches still run on the container it changed.\<close>

definition routeEmbed ::
  "page \<Rightarrow> anchor \<Rightarrow> url \<Rightarrow> string option \<Rightarrow> string \<Rightarrow> container \<Rightarrow> outcome" where
  "routeEmbed p a u sensitivity linkText c =
     (case (if enableTwitch (stateSettings p) then extractDggBigscreenTwitch u linkText else None) of
        Some chan \<Rightarrow> (appendChild c (cardWrap ''edgg-card-tw'' (a_href a) []),
                    [BigscreenTwitchCard chan])
      | None \<Rightarrow>
          (let (c1, e1) =
                 (if enableTweets (stateSettings p) \<and> isWhitelisted u \<and> (isTweet u \<or> isPicShort u)
                  then (injectBelow c newTweetCard (a_href a) sensitivity, [TweetCard (a_href a)])
                  else (c, []));
               (c2, e2) =
                 (case mediaStep p a u sensitivity c1 of
                    Some r \<Rightarrow> r
                  | None \<Rightarrow>
                      (case redditRedirectStep p a u sensitivity c1 of
                         Some r \<Rightarrow> r
                       | None \<Rightarrow>
                           (case resolverStep p a u c1 of
                              Some r \<Rightarrow> r
                            | None \<Rightarrow> streamStep p a u c1)))
           in (c2, e1 @ e2)))"

definition tryEmbed :: "page \<Rightarrow> anchor \<Rightarrow> container \<Rightarrow> exn + (container \<times> anchor \<times> effect list)" where
  "tryEmbed p a c =
     (case parseUrl p (a_href a) of
        None \<Rightarrow> Inl TypeError
      | Some u \<Rightarrow>
          (let host = hostname u;
               sensitivity = getSensitivityLabel c;
               linkText = trim (a_textContent a);
               pageText = toLowerCase (bodyInnerText p)
           in if linkText = ''(source)'' then Inr (c, a, [])
              else if sensitivity = Some ''NSFL'' \<and> hideNsfl p then Inr (c, a, [])
              else if sensitivity = Some ''NSFW'' \<and> hideNsfw p \<and> showRemoved p = ''0''
                then Inr (c, a, [])
              else if strIncludes pageText ''log in'' \<and> \<not> strIncludes pageText ''logout''
                then Inr (c, a, [])
              else if toLowerCase host = ''t.co'' \<and> \<not> a_edggResolvedTco a
                then Inr (c, a\<lparr>a_edggResolvedTco := True\<rparr>, [ResolveTco (a_href a)])
              else (let (c', es) = routeEmbed p a u sensitivity linkText c
                    in Inr (c', a, es))))"

text \<open>
  \<open>maybeEmbedInNode(el)\<close>: the anchors are the static list \<open>querySelectorAll\<close> returned
  when the scan started; \<open>forEach\<close> stops at the first exception.
\<close>

fun embedAnchors :: "page \<Rightarrow> nat list \<Rightarrow> container \<Rightarrow> exn + (container \<times> effect list)" where
  "embedAnchors p [] c = Inr (c, [])"
| "embedAnchors p (i # rest) c =
     (case tryEmbed p (c_anchors c ! i) c of
        Inl e \<Rightarrow> Inl e
      | Inr (c1, a1, es) \<Rightarrow>
          (case embedAnchors p rest (c1\<lparr>c_anchors := (c_anchors c1)[i := a1]\<rparr>) of
             Inl e \<Rightarrow> Inl e
           | Inr (c2, es2) \<Rightarrow> Inr (c2, es @ es2)))"

definition maybeEmbedInNode :: "page \<Rightarrow> container \<Rightarrow> exn + (container \<times> effect list)" where
  "maybeEmbedInNode p el =
     (if c_inWrap el then Inr (el, [])
      else if c_anchors el = [] then Inr (el, [])
      else embedAnchors p [0 ..< length (c_anchors el)] el)"

text \<open>The effects of the branches that \<open>tryEmbed\<close> guards with \<open>isWhitelisted\<close>.\<close>

fun allowListGated :: "effect \<Rightarrow> bool" where
  "allowListGated (TweetCard _) = True"
| "allowListGated DirectImage = True"
| "allowListGated DirectVideo = True"
| "allowListGated (YouTubeCard _) = True"
| "allowListGated (TwitchCard _ _) = True"
| "allowListGated (KickCard _ _) = True"
| "allowListGated _ = False"

text \<open>A page with the default settings, no hide option set and a logged-in body text,
  whose URL parser knows the links of the examples below.\<close>

definition defaultSettings :: settings where
  "defaultSettings =
     \<lparr>enableTweets = True, enableMedia = True, enableYouTube = True, enableTwitch = True,
      enableKick = True, enableInstagram = True, blurMedia = False\<rparr>"

definition examplePage :: page where
  "examplePage =
     \<lparr>parseUrl = (\<lambda>s.
        if s = ''https://www.destiny.gg/bigscreen#twitch/xqc'' then
          Some \<lparr>href = s, hostname = ''www.destiny.gg'', pathname = ''/bigscreen'',
                searchParams = [], hash = ''#twitch/xqc''\<rparr>
        else if s = ''https://evil.example/x'' then
          Some \<lparr>href = s, hostname = ''evil.example'', pathname = ''/x'', searchParams = [],
                hash = ''''\<rparr>
        else if s = ''https://files.catbox.moe/d97241.mp4'' then
          Some \<lparr>href = s, hostname = ''files.catbox.moe'', pathname = ''/d97241.mp4'',
                searchParams = [], hash = ''''\<rparr>
        else if s = ''https://i.imgur.com/abc.png'' then
          Some \<lparr>href = s, hostname = ''i.imgur.com'', pathname = ''/abc.png'',
                searchParams = [], hash = ''''\<rparr>
        else None),
      hideNsfl = False, hideNsfw = False, showRemoved = ''0'', bodyInnerText = ''chat logout'',
      stateSettings = defaultSettings\<rparr>"

definition plainMessage :: "anchor list \<Rightarrow> container" where
  "plainMessage as = \<lparr>c_inWrap = False, c_text = ''look at this'', c_anchors = as, c_wraps = []\<rparr>"



section \<open>Scroll state, insertion and the media pager\<close>

text \<open>
  \<open>STATE.stickyWanted\<close> and \<open>STATE.insertingEmbed\<close>, the scroller's geometry, and the
  callbacks waiting for the next animation frame or for a timeout. Assigning \<open>scrollTop\<close>
  is clamped by the browser to the scrollable range.
\<close>

record scroller =
  scrollTop :: int
  scrollHeight :: int
  clientHeight :: int

datatype task =
    DoScroll
  | DoScrollIfSticky
  | PageToFrame1 int bool bool
  | PageToFrame2 int bool bool

record world =
  stickyWanted :: bool
  insertingEmbed :: bool
  scrollRoot :: scroller
  raf :: "task list"
  timeouts :: "(nat \<times> task) list"

definition setScrollTop :: "int \<Rightarrow> scroller \<Rightarrow> scroller" where
  "setScrollTop v sc = sc\<lparr>scrollTop := max 0 (min v (scrollHeight sc - clientHeight sc))\<rparr>"

definition isAtBottom :: "scroller \<Rightarrow> int \<Rightarrow> bool" where
  "isAtBottom sc threshold = (scrollHeight sc - scrollTop sc - clientHeight sc \<le> threshold)"


text \<open>The scroll listener \<open>onScroll\<close> of \<open>setupDggMoreBelowHook\<close>.\<close>

definition onScroll :: "world \<Rightarrow> world" where
  "onScroll w =
     (if \<not> insertingEmbed w then w\<lparr>stickyWanted := isAtBottom (scrollRoot w) 32\<rparr> else w)"





text \<open>
  The pager of one \<open>.edgg-tweet-media\<close> group. An item is an \<open>img.edgg-media\<close> or
  \<open>video.edgg-media\<close> of the group; \<open>it_node\<close> identifies the element whose
  \<open>style.display\<close> the pager toggles for it: the item's closest \<open>.edgg-spoiler\<close> ancestor
  when there is one, the item itself otherwise. \<open>display\<close> maps such an element to the
  value last assigned to its \<open>style.display\<close>.
\<close>

record item =
  it_tag :: tagName
  it_node :: nat

record pager =
  items :: "item list"
  idx :: int
  display :: "(nat \<times> string) list"
  counterText :: "int \<times> nat"
  prevShown :: bool
  nextShown :: bool

fun setDisplay :: "nat \<Rightarrow> string \<Rightarrow> (nat \<times> string) list \<Rightarrow> (nat \<times> string) list" where
  "setDisplay k v [] = [(k, v)]"
| "setDisplay k v ((k', v') # rest) =
     (if k = k' then (k, v) # rest else (k', v') # setDisplay k v rest)"

text \<open>The loop \<open>for (let k = 0; k < n; k++)\<close> of \<open>show\<close>, from position \<open>k\<close> on.\<close>

fun showLoop :: "int \<Rightarrow> int \<Rightarrow> item list \<Rightarrow> (nat \<times> string) list \<Rightarrow> (nat \<times> string) list" where
  "showLoop i k [] d = d"
| "showLoop i k (el # rest) d =
     showLoop i (k + 1) rest (setDisplay (it_node el) (if k = i then ''block'' else ''none'') d)"

definition showItem :: "int \<Rightarrow> pager \<Rightarrow> pager" where
  "showItem i pg =
     (if items pg = [] then pg
      else (let n = int (length (items pg));
                j = max 0 (min i (n - 1))
            in pg\<lparr>idx := j,
                  display := showLoop j 0 (items pg) (display pg),
                  counterText := (j + 1, length (items pg)),
                  prevShown := (j > 0),
                  nextShown := (j < n - 1)\<rparr>))"

text \<open>\<open>initTweetMediaPager\<close> on one group that has no pager yet: no pager for fewer than
  two items, otherwise the first item is shown.\<close>

definition initTweetMediaPager :: "item list \<Rightarrow> pager option" where
  "initTweetMediaPager its =
     (if length its \<le> 1 then None
      else Some (showItem 0 \<lparr>items = its, idx = 0, display = [], counterText = (0, 0),
                              prevShown = False, nextShown = False\<rparr>))"

text \<open>
  \<open>safePageTo(newIdx)\<close>: the flag is set, the page is changed and the scroll position put
  back; the values saved on entry are restored by the second of two nested
  \<open>requestAnimationFrame\<close> callbacks.
\<close>

definition safePageTo :: "int \<Rightarrow> world \<times> pager \<Rightarrow> world \<times> pager" where
  "safePageTo newIdx wp =
     (let w = fst wp; pg = snd wp;
          wasInserting = insertingEmbed w;
          wasStickyWanted = stickyWanted w;
          savedScrollTop = scrollTop (scrollRoot w);
          w1 = w\<lparr>insertingEmbed := True\<rparr>;
          pg1 = showItem newIdx pg;
          w2 = w1\<lparr>scrollRoot := setScrollTop savedScrollTop (scrollRoot w1)\<rparr>
      in (w2\<lparr>raf := raf w2 @ [PageToFrame1 savedScrollTop wasStickyWanted wasInserting]\<rparr>, pg1))"



text \<open>The pager's click handlers: previous, next, and a click on the \<open>k\<close>-th item.\<close>

datatype pagerClick = ClickPrev | ClickNext | ClickItem nat

fun handleClick :: "pagerClick \<Rightarrow> world \<times> pager \<Rightarrow> world \<times> pager" where
  "handleClick ClickPrev wp = safePageTo (idx (snd wp) - 1) wp"
| "handleClick ClickNext wp = safePageTo (idx (snd wp) + 1) wp"
| "handleClick (ClickItem k) wp =
     (if k < length (items (snd wp)) then
        (if it_tag (items (snd wp) ! k) = VIDEO then wp
         else if idx (snd wp) < int (length (items (snd wp))) - 1
           then safePageTo (idx (snd wp) + 1) wp
         else wp)
      else wp)"

definition visibleItems :: "pager \<Rightarrow> item list" where
  "visibleItems pg = filter (\<lambda>el. map_of (display pg) (it_node el) = Some ''block'') (items pg)"

definition restWorld :: world where
  "restWorld =
     \<lparr>stickyWanted = True, insertingEmbed = False,
      scrollRoot = \<lparr>scrollTop = 600, scrollHeight = 1000, clientHeight = 400\<rparr>,
      raf = [], timeouts = []\<rparr>"

text \<open>The pager's invariant: the index is in range and the shown items are exactly the
  item at the index.\<close>

definition pagerOk :: "pager \<Rightarrow> bool" where
  "pagerOk pg =
     (0 \<le> idx pg \<and> idx pg < int (length (items pg)) \<and>
      visibleItems pg = [items pg ! nat (idx pg)])"

text \<open>A group of two photos and a video, each toggled through its own element.\<close>

definition threeItems :: "item list" where
  "threeItems =
     [\<lparr>it_tag = IMG, it_node = 0\<rparr>, \<lparr>it_tag = IMG, it_node = 1\<rparr>, \<lparr>it_tag = VIDEO, it_node = 2\<rparr>]"

definition threeItemPager :: pager where
  "threeItemPager =
     showItem 0 \<lparr>items = threeItems, idx = 0, display = [], counterText = (0, 0),
                 prevShown = False, nextShown = False\<rparr>"

section \<open>The background worker's tweet resolution\<close>

text \<open>
  Parsed JSON as \<open>resp.json()\<close> returns it. An object lists its properties in the order
  \<open>for (const k in v)\<close> visits them. Numbers are never read by the scan beyond their
  truthiness, so an integer stands for them.
\<close>

datatype json =
    JNull
  | JBool bool
  | JNum int
  | JStr string
  | JArr "json list"
  | JObj "(string \<times> json) list"

fun truthy :: "json \<Rightarrow> bool" where
  "truthy JNull = False"
| "truthy (JBool b) = b"
| "truthy (JNum n) = (n \<noteq> 0)"
| "truthy (JStr s) = (s \<noteq> [])"
| "truthy (JArr xs) = True"
| "truthy (JObj kvs) = True"

text \<open>The first truthy operand of \<open>a || b || ...\<close> over strings, \<open>''\<close> when there is none.\<close>

fun firstTruthy :: "string list \<Rightarrow> string" where
  "firstTruthy [] = []"
| "firstTruthy (x # xs) = (if x \<noteq> [] then x else firstTruthy xs)"

definition isPhotoUrl :: "string \<Rightarrow> bool" where
  "isPhotoUrl s =
     ((startsWith s ''http://pbs.twimg.com/media/'' \<or> startsWith s ''https://pbs.twimg.com/media/'')
      \<and> extThenEndOrQuery [''jpg'', ''jpeg'', ''png'', ''gif'', ''webp''] (toLowerCase s))"

definition isVideoUrl :: "string \<Rightarrow> bool" where
  "isVideoUrl s =
     ((startsWith s ''http://video.twimg.com/'' \<or> startsWith s ''https://video.twimg.com/'')
      \<and> extThenEndOrQuery [''mp4''] (toLowerCase s))"

text \<open>\<open>walk\<close> of \<open>scan\<close>: every string of the reply, in the order the walk meets them.\<close>

fun walk :: "json \<Rightarrow> string list" where
  "walk JNull = []"
| "walk (JBool b) = []"
| "walk (JNum n) = []"
| "walk (JStr s) = (if s = [] then [] else [s])"
| "walk (JArr xs) = concat (map walk xs)"
| "walk (JObj kvs) = concat (map (\<lambda>kv. walk (snd kv)) kvs)"

definition scanPhotos :: "json \<Rightarrow> string list" where
  "scanPhotos j = filter isPhotoUrl (walk j)"

definition scanVideos :: "json \<Rightarrow> string list" where
  "scanVideos j = filter isVideoUrl (walk j)"

text \<open>Deduplication that keeps the first occurrence, as the \<open>Set\<close>-guarded \<open>filter\<close> does.\<close>

fun dedupe :: "string list \<Rightarrow> string list \<Rightarrow> string list" where
  "dedupe seen [] = []"
| "dedupe seen (x # xs) =
     (if List.member seen x then dedupe seen xs else x # dedupe (x # seen) xs)"

text \<open>\<open>typeof v.k === 'string' && v.k\<close> on a value that is not \<open>null\<close>.\<close>

definition strProp :: "json \<Rightarrow> string \<Rightarrow> string" where
  "strProp v k =
     (case v of
        JObj kvs \<Rightarrow> (case map_of kvs k of Some (JStr s) \<Rightarrow> s | _ \<Rightarrow> [])
      | _ \<Rightarrow> [])"

text \<open>The text of a mirror's reply; reading \<open>j.text\<close> of \<open>null\<close> throws inside the inner
  \<open>try\<close>, which leaves the text as it was.\<close>

definition replyText :: "json \<Rightarrow> string" where
  "replyText j =
     (case j of
        JNull \<Rightarrow> []
      | _ \<Rightarrow>
        (let tweet = (case j of JObj kvs \<Rightarrow> map_of kvs ''tweet'' | _ \<Rightarrow> None);
             viaTweet = (\<lambda>k. case tweet of
                               None \<Rightarrow> []
                             | Some t \<Rightarrow> (if truthy t then strProp t k else []))
         in firstTruthy [strProp j ''text'', viaTweet ''full_text'', viaTweet ''text'']))"

datatype mirror = FxTwitter | ApiVxTwitter | VxTwitter

text \<open>What a mirror gives: \<open>Failed\<close> when \<open>fetch\<close> throws, the status is not OK or the
  body is not JSON; each of these moves on to the next mirror.\<close>

datatype mirrorReply = Failed | Replied json

record enrichment =
  x_photos :: "string list"
  x_videos :: "string list"
  x_text :: string
  x_fetched :: "mirror list"

definition tryUrls :: "mirror list" where
  "tryUrls = [FxTwitter, ApiVxTwitter, VxTwitter]"

text \<open>The loop \<open>for (const u of tryUrls)\<close>; \<open>x_fetched\<close> records the mirrors requested.\<close>

fun enrichLoop :: "(mirror \<Rightarrow> mirrorReply) \<Rightarrow> mirror list \<Rightarrow> enrichment \<Rightarrow> enrichment" where
  "enrichLoop respond [] out = out"
| "enrichLoop respond (u # rest) out =
     (let out0 = out\<lparr>x_fetched := x_fetched out @ [u]\<rparr>
      in case respond u of
           Failed \<Rightarrow> enrichLoop respond rest out0
         | Replied j \<Rightarrow>
             (let t = replyText j;
                  out1 = (if t \<noteq> [] \<and> x_text out0 = [] then out0\<lparr>x_text := t\<rparr> else out0);
                  photos = scanPhotos j;
                  videos = scanVideos j
              in if photos \<noteq> [] \<or> videos \<noteq> []
                 then out1\<lparr>x_photos := x_photos out1 @ dedupe [] photos,
                           x_videos := x_videos out1 @ dedupe [] videos\<rparr>
                 else enrichLoop respond rest out1))"

definition noEnrichment :: enrichment where
  "noEnrichment = \<lparr>x_photos = [], x_videos = [], x_text = [], x_fetched = []\<rparr>"

definition enrichFromFxVx :: "(mirror \<Rightarrow> mirrorReply) \<Rightarrow> string option \<Rightarrow> enrichment" where
  "enrichFromFxVx respond tid =
     (case tid of
        None \<Rightarrow> noEnrichment
      | Some i \<Rightarrow> (if i = [] then noEnrichment else enrichLoop respond tryUrls noEnrichment))"

text \<open>
  The widget CDN's tweet object, read at the types of the upstream schema. A photo entry
  is \<open>null\<close>, a string, or an object with the URL fields the code looks at (\<open>''\<close> for a
  missing or falsy field).
\<close>

datatype photoEntry =
    PNull
  | PStr string
  | PObj (p_url: string) (p_media_url_https: string) (p_media_url: string) (p_src: string)

record cdnData =
  cd_text :: string
  cd_full_text :: string
  cd_description :: string
  cd_photos :: "photoEntry list option"
  cd_entities_media :: "photoEntry list option"

text \<open>An HTTP exchange: the request throws, or it answers with \<open>ok\<close> and a body that
  parses (\<open>Some\<close>) or not (\<open>None\<close>: \<open>json()\<close> throws).\<close>

datatype 'a httpReply = NetworkError | Http bool "'a option"

record oembedData =
  oe_html :: string
  oe_author_name :: string

record normalized =
  n_text :: string
  n_photos :: "photoEntry list"
  n_videos :: "string list option"
  n_oembed_html :: "string option"

datatype tweetResponse =
    RespError
  | RespCdn normalized
  | RespVx string "string list" "string list"
  | RespOEmbed string string

definition isBlank :: "string \<Rightarrow> bool" where
  "isBlank s = (s = [] \<or> trim s = [])"

text \<open>The URL of a photo entry that the merge treats as already present.\<close>

definition existingPhotoUrl :: "photoEntry \<Rightarrow> string" where
  "existingPhotoUrl p =
     (case p of
        PNull \<Rightarrow> []
      | PStr s \<Rightarrow> s
      | PObj u h m s \<Rightarrow> firstTruthy [u, h, m])"

text \<open>The merge of an enrichment that has media into the normalized CDN result.\<close>

definition mergeEnrichment :: "normalized \<Rightarrow> enrichment \<Rightarrow> normalized" where
  "mergeEnrichment nz extra =
     (if x_photos extra \<noteq> [] \<or> x_videos extra \<noteq> [] then
        (let existing = filter (\<lambda>u. u \<noteq> []) (map existingPhotoUrl (n_photos nz));
             added = map (\<lambda>u. PObj u [] [] []) (filter (\<lambda>u. \<not> List.member existing u) (x_photos extra))
         in nz\<lparr>n_photos := n_photos nz @ added,
                n_videos := Some (x_videos extra),
                n_text := (if isBlank (n_text nz) \<and> x_text extra \<noteq> [] then x_text extra
                           else n_text nz)\<rparr>)
      else nz)"

definition normalize :: "cdnData \<Rightarrow> normalized" where
  "normalize d =
     \<lparr>n_text = firstTruthy [cd_text d, cd_full_text d, cd_description d],
      n_photos = (case cd_photos d of
                    Some ps \<Rightarrow> ps
                  | None \<Rightarrow> (case cd_entities_media d of Some ms \<Rightarrow> ms | None \<Rightarrow> [])),
      n_videos = None,
      n_oembed_html = None\<rparr>"

text \<open>
  The \<open>fetchTweet\<close> handler, in its three parts: the answer when the CDN replied OK,
  the answer when it did not, and the choice between them. The status id \<open>tid\<close> decides
  whether the CDN is asked by id first (and by URL second) or by URL only.
\<close>

definition cdnAnswer ::
  "string option \<Rightarrow> cdnData \<Rightarrow> (mirror \<Rightarrow> mirrorReply) \<Rightarrow> oembedData httpReply \<Rightarrow> tweetResponse" where
  "cdnAnswer tid d respond oembed =
     (let nz = mergeEnrichment (normalize d) (enrichFromFxVx respond tid);
          nz2 = (if isBlank (n_text nz) then
                   (case oembed of
                      Http okE (Some od) \<Rightarrow>
                        (if okE \<and> oe_html od \<noteq> [] then nz\<lparr>n_oembed_html := Some (oe_html od)\<rparr>
                         else nz)
                    | _ \<Rightarrow> nz)
                 else nz)
      in RespCdn nz2)"

definition mirrorOrOEmbedAnswer ::
  "string option \<Rightarrow> (mirror \<Rightarrow> mirrorReply) \<Rightarrow> oembedData httpReply \<Rightarrow> tweetResponse" where
  "mirrorOrOEmbedAnswer tid respond oembed =
     (let extra = enrichFromFxVx respond tid
      in if x_photos extra \<noteq> [] \<or> x_videos extra \<noteq> []
         then RespVx (x_text extra) (x_photos extra) (x_videos extra)
         else (case oembed of
                 NetworkError \<Rightarrow> RespError
               | Http okE bodyE \<Rightarrow>
                   (if \<not> okE then RespError
                    else (case bodyE of
                            None \<Rightarrow> RespError
                          | Some od \<Rightarrow> RespOEmbed (oe_html od) (oe_author_name od)))))"

definition fetchTweet ::
  "string option \<Rightarrow> cdnData httpReply \<Rightarrow> cdnData httpReply \<Rightarrow> (mirror \<Rightarrow> mirrorReply)
     \<Rightarrow> oembedData httpReply \<Rightarrow> tweetResponse" where
  "fetchTweet tid cdnById cdnByUrl respond oembed =
     (let hasId = (case tid of None \<Rightarrow> False | Some i \<Rightarrow> i \<noteq> []);
          r1 = (if hasId then cdnById else cdnByUrl);
          r = (case r1 of
                 NetworkError \<Rightarrow> NetworkError
               | Http ok1 body1 \<Rightarrow> (if \<not> ok1 \<and> hasId then cdnByUrl else r1))
      in case r of
           NetworkError \<Rightarrow> RespError
         | Http ok body \<Rightarrow>
             (if ok then
                (case body of
                   None \<Rightarrow> RespError
                 | Some d \<Rightarrow> cdnAnswer tid d respond oembed)
              else mirrorOrOEmbedAnswer tid respond oembed))"






section \<open>Rendering a tweet card\<close>



datatype mediaNode = PhotoNode string | VideoNode string









text \<open>
  The body of a tweet card and the callback of \<open>fetchTweet\<close>. The response is \<open>null\<close>
  (\<open>None\<close>) or carries \<open>ok\<close>, \<open>source\<close> and \<open>data\<close>; the payload holds the oEmbed HTML
  with the anchors of its blockquote (\<open>None\<close> without a blockquote) and the tweet object.
  \<open>raised\<close> is an exception thrown while rendering, which the callback's \<open>catch\<close> turns
  into the fallback link.
\<close>

datatype tweetBody = LoadingTweet | FallbackLink string | RenderedTweet "mediaNode list" string




section \<open>The page resolvers' callbacks\<close>

text \<open>
  A \<open>bgFetch\<close> response is \<open>null\<close> (\<open>None\<close>) or carries \<open>ok\<close>, \<open>body\<close> and \<open>finalUrl\<close>.
  What \<open>DOMParser\<close>, \<open>JSON.parse\<close> and the extraction regular expressions read from a
  body is given by a reader: the \<open>content\<close> of a meta element (\<open>''\<close> when absent), the video
  address of the JSON-LD block and of the raw markup, the Instagram caption, and the live
  title of a Kick page.
\<close>

datatype metaKey =
    OgImage | TwitterImage | OgImageSecureUrl | LinkImageSrc
  | OgVideoSecureUrl | OgVideo | TwitterPlayerStream | OgVideoType
  | OgDescription | TwitterDescription | OgTitle | TwitterTitle





















section \<open>Stream cards and their thumbnail refresh timers\<close>

text \<open>
  A stream card as its callbacks see it: the overlay's title, the thumbnail's \<open>src\<close> and
  whether the thumbnail is connected to the document, the two timer fields the refresh
  functions keep on the thumbnail, and the browser's active intervals with period and
  callback. \<open>setInterval\<close> hands out the next identifier; browsers start at one.
\<close>

datatype refresher = ThumbRefresh string | TwitchRefresh string

record card =
  k_title :: string
  k_thumbSrc :: string
  k_thumbConnected :: bool
  k_edggTwTimer :: "nat option"
  k_edggThumbTimer :: "nat option"
  k_intervals :: "(nat \<times> int \<times> refresher) list"
  k_nextTimerId :: nat

text \<open>What a refresh reads from its surroundings when it runs: whether the card's wrapper
  is in the scroller's viewport, \<open>Date.now()\<close> as text, and \<open>encodeURIComponent\<close>.\<close>

record tickEnv =
  inView :: bool
  nowText :: string
  encodeURIComponent :: "string \<Rightarrow> string"

text \<open>\<open>x | 0\<close>: the 32-bit signed value of an integral number.\<close>

definition toInt32 :: "int \<Rightarrow> int" where
  "toInt32 x = (x + 2147483648) mod 4294967296 - 2147483648"

definition clearInterval :: "nat option \<Rightarrow> card \<Rightarrow> card" where
  "clearInterval t k =
     (case t of
        None \<Rightarrow> k
      | Some i \<Rightarrow> k\<lparr>k_intervals := filter (\<lambda>e. fst e \<noteq> i) (k_intervals k)\<rparr>)"

definition lookupInterval :: "nat \<Rightarrow> card \<Rightarrow> (int \<times> refresher) option" where
  "lookupInterval i k = map_of (k_intervals k) i"

definition getTwitchLivePreviewUrl :: "tickEnv \<Rightarrow> string \<Rightarrow> string" where
  "getTwitchLivePreviewUrl env channel =
     (let c = toLowerCase channel
      in if c = [] then []
         else ''https://static-cdn.jtvnw.net/previews-ttv/live_user_'' @ encodeURIComponent env c
              @ ''-640x360.jpg'')"

text \<open>The \<open>update\<close> closures of \<open>startThumbAutoRefresh\<close> and
  \<open>startTwitchThumbAutoRefresh\<close>; the wrapper is the \<open>scopeEl\<close> every call site passes.\<close>

definition thumbUpdate :: "tickEnv \<Rightarrow> string \<Rightarrow> card \<Rightarrow> card" where
  "thumbUpdate env baseUrl k =
     (if \<not> k_thumbConnected k then (clearInterval (k_edggThumbTimer k) k)\<lparr>k_edggThumbTimer := None\<rparr>
      else if \<not> inView env then k
      else k\<lparr>k_thumbSrc := baseUrl @ (if strIncludes baseUrl ''?'' then ''&'' else ''?'')
                               @ ''t='' @ nowText env\<rparr>)"

definition twitchUpdate :: "tickEnv \<Rightarrow> string \<Rightarrow> card \<Rightarrow> card" where
  "twitchUpdate env channel k =
     (if \<not> k_thumbConnected k then (clearInterval (k_edggTwTimer k) k)\<lparr>k_edggTwTimer := None\<rparr>
      else if \<not> inView env then k
      else (let base = getTwitchLivePreviewUrl env channel
            in if base = [] then k else k\<lparr>k_thumbSrc := base @ ''?t='' @ nowText env\<rparr>))"

text \<open>The period argument, \<open>60000\<close> when omitted.\<close>

definition periodOf :: "int option \<Rightarrow> int" where
  "periodOf periodMs = (case periodMs of None \<Rightarrow> 60000 | Some x \<Rightarrow> x)"

definition startThumbAutoRefresh :: "tickEnv \<Rightarrow> string \<Rightarrow> int option \<Rightarrow> card \<Rightarrow> card" where
  "startThumbAutoRefresh env baseUrl periodMs k =
     (if baseUrl = [] then k
      else
        (let k1 = (case k_edggThumbTimer k of
                     Some t \<Rightarrow> (if t \<noteq> 0 then clearInterval (Some t) k else k)
                   | None \<Rightarrow> k);
             k2 = thumbUpdate env baseUrl k1;
             i = k_nextTimerId k2
         in k2\<lparr>k_intervals := k_intervals k2
                                 @ [(i, max 15000 (toInt32 (periodOf periodMs)), ThumbRefresh baseUrl)],
                k_nextTimerId := i + 1,
                k_edggThumbTimer := Some i\<rparr>))"

definition startTwitchThumbAutoRefresh :: "tickEnv \<Rightarrow> string \<Rightarrow> int option \<Rightarrow> card \<Rightarrow> card" where
  "startTwitchThumbAutoRefresh env channel periodMs k =
     (if channel = [] then k
      else
        (let k1 = (case k_edggTwTimer k of
                     Some t \<Rightarrow> (if t \<noteq> 0 then clearInterval (Some t) k else k)
                   | None \<Rightarrow> k);
             k2 = twitchUpdate env channel k1;
             i = k_nextTimerId k2
         in k2\<lparr>k_intervals := k_intervals k2
                                 @ [(i, max 15000 (toInt32 (periodOf periodMs)), TwitchRefresh channel)],
                k_nextTimerId := i + 1,
                k_edggTwTimer := Some i\<rparr>))"

text \<open>The browser firing interval \<open>i\<close>: nothing happens for an interval that is not
  active.\<close>

definition tick :: "tickEnv \<Rightarrow> nat \<Rightarrow> card \<Rightarrow> card" where
  "tick env i k =
     (case lookupInterval i k of
        None \<Rightarrow> k
      | Some (p, ThumbRefresh b) \<Rightarrow> thumbUpdate env b k
      | Some (p, TwitchRefresh ch) \<Rightarrow> twitchUpdate env ch k)"

text \<open>The timer field a refresher keeps its identifier in; a timer is armed when it is
  active and its field holds its identifier; identifiers are fresh when every active one
  is below the next to be handed out.\<close>

fun timerField :: "refresher \<Rightarrow> card \<Rightarrow> nat option" where
  "timerField (ThumbRefresh b) k = k_edggThumbTimer k"
| "timerField (TwitchRefresh ch) k = k_edggTwTimer k"

definition armed :: "nat \<Rightarrow> int \<Rightarrow> refresher \<Rightarrow> card \<Rightarrow> bool" where
  "armed i p r k = (lookupInterval i k = Some (p, r) \<and> timerField r k = Some i)"

definition freshIds :: "card \<Rightarrow> bool" where
  "freshIds k = list_all (\<lambda>e. fst e < k_nextTimerId k) (k_intervals k)"

section \<open>The Kick card's metadata callback\<close>









text \<open>A card just inserted, a viewport that shows it, and a Kick page with an image and
  a live title, for the examples.\<close>

definition freshCard :: card where
  "freshCard =
     \<lparr>k_title = loadingText, k_thumbSrc = [], k_thumbConnected = True, k_edggTwTimer = None,
      k_edggThumbTimer = None, k_intervals = [], k_nextTimerId = 1\<rparr>"

definition shownEnv :: tickEnv where
  "shownEnv = \<lparr>inView = True, nowText = ''1700000000000'', encodeURIComponent = (\<lambda>s. s)\<rparr>"

definition hiddenEnv :: tickEnv where
  "hiddenEnv = \<lparr>inView = False, nowText = ''1700000060000'', encodeURIComponent = (\<lambda>s. s)\<rparr>"



section \<open>Spoiler overlays on the document tree\<close>

text \<open>
  The part of the document the spoiler code walks: an element has an identity, a tag, its
  class list and its child elements in order. Identities are unique in a tree; they stand
  for the element references the handlers hold.
\<close>

datatype dom = Elem (nid: nat) (dtag: tagName) (dclasses: "string list") (kids: "dom list")

definition hasClass :: "string \<Rightarrow> dom \<Rightarrow> bool" where
  "hasClass c e = List.member (dclasses e) c"

text \<open>The descendants of an element in document order, as \<open>querySelectorAll\<close> visits
  them.\<close>

fun descendants :: "dom \<Rightarrow> dom list" where
  "descendants (Elem i t cs ks) = concat (map (\<lambda>k. k # descendants k) ks)"

fun firstNonEmpty :: "'a list list \<Rightarrow> 'a list" where
  "firstNonEmpty [] = []"
| "firstNonEmpty (x # xs) = (if x \<noteq> [] then x else firstNonEmpty xs)"

text \<open>The element with the given identity and its ancestors, nearest first; empty when
  the tree does not hold it.\<close>

fun ancestorsOrSelf :: "nat \<Rightarrow> dom \<Rightarrow> dom list" where
  "ancestorsOrSelf target (Elem i t cs ks) =
     (if i = target then [Elem i t cs ks]
      else (case firstNonEmpty (map (ancestorsOrSelf target) ks) of
              [] \<Rightarrow> []
            | p # ps \<Rightarrow> (p # ps) @ [Elem i t cs ks]))"

text \<open>\<open>el.closest('.cls')\<close>\<close>

definition closest :: "string \<Rightarrow> nat \<Rightarrow> dom \<Rightarrow> dom option" where
  "closest c target root = find (hasClass c) (ancestorsOrSelf target root)"

definition findElem :: "nat \<Rightarrow> dom \<Rightarrow> dom option" where
  "findElem target root = find (\<lambda>e. nid e = target) (root # descendants root)"

fun mapElem :: "nat \<Rightarrow> (dom \<Rightarrow> dom) \<Rightarrow> dom \<Rightarrow> dom" where
  "mapElem target f (Elem i t cs ks) =
     (if i = target then f (Elem i t cs ks) else Elem i t cs (map (mapElem target f) ks))"

text \<open>\<open>parent.removeChild(el)\<close> for the element with the given identity.\<close>

fun removeElem :: "nat \<Rightarrow> dom \<Rightarrow> dom" where
  "removeElem target (Elem i t cs ks) =
     Elem i t cs (map (removeElem target) (filter (\<lambda>k. nid k \<noteq> target) ks))"

definition classAdd :: "string \<Rightarrow> dom \<Rightarrow> dom" where
  "classAdd c e = Elem (nid e) (dtag e) (addClass c (dclasses e)) (kids e)"

definition classRemove :: "string \<Rightarrow> dom \<Rightarrow> dom" where
  "classRemove c e = Elem (nid e) (dtag e) (filter (\<lambda>x. x \<noteq> c) (dclasses e)) (kids e)"

definition appendKid :: "dom \<Rightarrow> dom \<Rightarrow> dom" where
  "appendKid k e = Elem (nid e) (dtag e) (dclasses e) (kids e @ [k])"

text \<open>\<open>img.edgg-media, video.edgg-media, iframe.edgg-media\<close> and \<open>img, video, iframe\<close>\<close>

definition isMediaTag :: "dom \<Rightarrow> bool" where
  "isMediaTag e = (dtag e = IMG \<or> dtag e = VIDEO \<or> dtag e = IFRAME)"

definition isEdggMedia :: "dom \<Rightarrow> bool" where
  "isEdggMedia e = (isMediaTag e \<and> hasClass ''edgg-media'' e)"

text \<open>
  One pass of \<open>revealAllInTweet\<close>'s loops over a spoiler found earlier: its media and its
  cover are looked up in the tree as it is now; with a media element, the blur class is
  taken off it, the spoiler is marked revealed (a wrapper-style spoiler also loses the
  \<open>edgg-spoiler\<close> class) and the cover is removed.
\<close>

definition revealOne :: "bool \<Rightarrow> nat \<Rightarrow> dom \<Rightarrow> dom" where
  "revealOne wrapperStyle sid root =
     (case findElem sid root of
        None \<Rightarrow> root
      | Some sp \<Rightarrow>
          (case find isEdggMedia (descendants sp) of
             None \<Rightarrow> root
           | Some media \<Rightarrow>
               (let cover = find (hasClass ''edgg-spoiler-cover'') (descendants sp);
                    r1 = mapElem (nid media) (classRemove ''edgg-spoiler-blur'') root;
                    r2 = (if wrapperStyle then mapElem sid (classRemove ''edgg-spoiler'') r1 else r1);
                    r3 = mapElem sid (classAdd ''edgg-spoiler-revealed'') r2
                in case cover of None \<Rightarrow> r3 | Some cv \<Rightarrow> removeElem (nid cv) r3)))"

text \<open>\<open>revealAllInTweet(triggerElement)\<close>: without a \<open>.edgg-tweet-media\<close> ancestor of the
  trigger the function returns at once.\<close>

definition revealAllInTweet :: "nat \<Rightarrow> dom \<Rightarrow> dom" where
  "revealAllInTweet trigger root =
     (case closest ''edgg-tweet-media'' trigger root of
        None \<Rightarrow> root
      | Some tweetContainer \<Rightarrow>
          (let spoilers = filter (\<lambda>e. hasClass ''edgg-spoiler'' e \<and> \<not> hasClass ''edgg-spoiler-revealed'' e)
                            (descendants tweetContainer);
               r1 = fold (revealOne False) (map nid spoilers) root;
               wrapSpoilers =
                 (case findElem (nid tweetContainer) r1 of
                    None \<Rightarrow> []
                  | Some tc \<Rightarrow>
                      filter (\<lambda>e. hasClass ''edgg-wrap'' e \<and> hasClass ''edgg-spoiler'' e
                                   \<and> \<not> hasClass ''edgg-spoiler-revealed'' e)
                        (descendants tc))
           in fold (revealOne True) (map nid wrapSpoilers) r1))"

text \<open>
  The cover both overlay functions build, with its text and icon; \<open>fresh\<close> is an identity
  not yet in the tree.
\<close>

definition newCover :: "nat \<Rightarrow> dom" where
  "newCover fresh =
     Elem fresh DIV [''edgg-spoiler-cover'']
       [Elem (fresh + 1) DIV [''edgg-spoiler-text''] [Elem (fresh + 2) SPAN [''edgg-spoiler-icon''] []]]"

text \<open>
  \<open>applySpoilerIfNeeded(wrap, label, force)\<close> on the wrapper with identity \<open>wrapId\<close>. The
  result holds the new tree and, when a cover was added, the element that the cover's click
  and key handlers pass to \<open>revealAllInTweet\<close>: the wrapper's first image, video or iframe.
\<close>

definition applySpoilerIfNeeded :: "bool \<Rightarrow> bool \<Rightarrow> nat \<Rightarrow> nat \<Rightarrow> dom \<Rightarrow> dom \<times> nat option" where
  "applySpoilerIfNeeded blur force fresh wrapId root =
     (case findElem wrapId root of
        None \<Rightarrow> (root, None)
      | Some wrap \<Rightarrow>
          (case find isMediaTag (descendants wrap) of
             None \<Rightarrow> (root, None)
           | Some media \<Rightarrow>
               (if \<not> blur \<and> \<not> force then (root, None)
                else if hasClass ''edgg-spoiler-revealed'' wrap then (root, None)
                else if find (hasClass ''edgg-spoiler-cover'') (descendants wrap) \<noteq> None
                  then (root, None)
                else
                  (let r1 = mapElem wrapId (classAdd ''edgg-spoiler'') root;
                       r2 = mapElem (nid media) (classAdd ''edgg-spoiler-blur'') r1;
                       r3 = mapElem wrapId (appendKid (newCover fresh)) r2
                   in (r3, Some (nid media))))))"

text \<open>
  The per-media overlay of \<open>applySpoilersInRoot\<close> for one media element whose parent is not
  a wrapper: a holder takes the element's place, the element moves into it with the blur
  class, and the cover follows it. The handlers pass the media element to
  \<open>revealAllInTweet\<close>.
\<close>

fun holdMedia :: "nat \<Rightarrow> nat \<Rightarrow> dom \<Rightarrow> dom" where
  "holdMedia fresh target (Elem i t cs ks) =
     Elem i t cs
       (map (\<lambda>k. if nid k = target
                  then Elem fresh DIV [''edgg-spoiler'']
                         [classAdd ''edgg-spoiler-blur'' k, newCover (fresh + 1)]
                  else holdMedia fresh target k) ks)"

text \<open>
  A message with one direct image in its wrapper, as \<open>injectBelow\<close> appends it, and the
  media block of a tweet card with two photos, for the examples.
\<close>

definition imageMessage :: dom where
  "imageMessage =
     Elem 0 DIV [''msg-chat'']
       [Elem 1 DIV [''edgg-wrap'', ''edgg-left'']
          [Elem 2 A [''edgg-media-link''] [Elem 3 IMG [''edgg-media''] []]]]"

definition tweetMediaBlock :: dom where
  "tweetMediaBlock =
     Elem 0 DIV [''edgg-wrap'', ''edgg-left'']
       [Elem 1 DIV [''edgg-embed'', ''edgg-tweet'']
          [Elem 2 DIV [''edgg-tweet-body'']
             [Elem 3 DIV [''edgg-tweet-media'']
                [Elem 4 IMG [''edgg-media'', ''edgg-tweet-photo''] [],
                 Elem 5 IMG [''edgg-media'', ''edgg-tweet-photo''] []]]]]"

section \<open>Results on the embed router\<close>

lemma mediaStep_unlisted: "\<not> isWhitelisted u \<Longrightarrow> mediaStep p a u s c = None"
  by (simp add: mediaStep_def)

lemma streamStep_unlisted: "\<not> isWhitelisted u \<Longrightarrow> streamStep p a u c = (c, [])"
  by (simp add: streamStep_def)

lemma redditRedirectStep_effects:
  "redditRedirectStep p a u s c = Some (c', es) \<Longrightarrow>
     es = [RedditRedirectImage] \<or> es = [RedditRedirectVideo]"
  by (auto simp: redditRedirectStep_def Let_def split: if_splits option.splits)

lemma resolverStep_effects:
  "resolverStep p a u c = Some (c', es) \<Longrightarrow>
     c' = c \<and> (es = [ResolveImgur (a_href a)] \<or> es = [ResolveInstagram (a_href a)]
               \<or> es = [ResolveReddit (a_href a)])"
  by (auto simp: resolverStep_def split: if_splits)

lemma routeEmbed_unlisted:
  assumes "\<not> isWhitelisted u" and "routeEmbed p a u s t c = (c', es)"
  shows "list_all (\<lambda>e. \<not> allowListGated e) es \<and>
         (c' = c \<or> (\<exists>chan. es = [BigscreenTwitchCard chan]) \<or> es = [RedditRedirectImage]
          \<or> es = [RedditRedirectVideo])"
  using assms
  by (auto simp: routeEmbed_def mediaStep_unlisted streamStep_unlisted
           split: option.splits if_splits prod.splits
           dest!: redditRedirectStep_effects resolverStep_effects)

text \<open>
  C1, as amended. For an anchor whose URL is not whitelisted (its host is absent from the
  allow-list and the URL is not a Twitter CDN image or video URL), \<open>tryEmbed\<close> runs none
  of the branches guarded by the allow-list: no tweet card, no direct image or video, no
  YouTube, Twitch or Kick card. The container is left as it was unless the bigscreen Twitch
  card or the Reddit media redirector, which have their own host and text patterns,
  inserted a wrapper; the Imgur, Instagram and Reddit resolvers may still be started.
\<close>

theorem tryEmbed_unlisted_only_ungated:
  assumes "parseUrl p (a_href a) = Some u" and "\<not> isWhitelisted u"
    and "tryEmbed p a c = Inr (c', a', es)"
  shows "list_all (\<lambda>e. \<not> allowListGated e) es \<and>
         (c' = c \<or> (\<exists>chan. es = [BigscreenTwitchCard chan]) \<or> es = [RedditRedirectImage]
          \<or> es = [RedditRedirectVideo])"
  using assms routeEmbed_unlisted[OF assms(2)]
  by (auto simp: tryEmbed_def Let_def split: if_splits prod.splits)

theorem tryEmbed_unlisted_only_ungated_witness:
  "parseUrl examplePage
     (a_href \<lparr>a_href = ''https://evil.example/x'', a_textContent = ''hello'',
              a_edggResolvedTco = False\<rparr>) =
     Some \<lparr>href = ''https://evil.example/x'', hostname = ''evil.example'', pathname = ''/x'',
           searchParams = [], hash = ''''\<rparr>
   \<and> \<not> isWhitelisted \<lparr>href = ''https://evil.example/x'', hostname = ''evil.example'',
                        pathname = ''/x'', searchParams = [], hash = ''''\<rparr>
   \<and> tryEmbed examplePage
        \<lparr>a_href = ''https://evil.example/x'', a_textContent = ''hello'', a_edggResolvedTco = False\<rparr>
        (plainMessage []) =
      Inr (plainMessage [],
           \<lparr>a_href = ''https://evil.example/x'', a_textContent = ''hello'',
            a_edggResolvedTco = False\<rparr>, [])
   \<and> list_all (\<lambda>e. \<not> allowListGated e) []"
proof -
  let ?u = "\<lparr>href = ''https://evil.example/x'', hostname = ''evil.example'', pathname = ''/x'',
              searchParams = [], hash = ''''\<rparr>"
  let ?a = "\<lparr>a_href = ''https://evil.example/x'', a_textContent = ''hello'',
              a_edggResolvedTco = False\<rparr>"
  have h1: "parseUrl examplePage (a_href ?a) = Some ?u" by code_simp
  have h2: "\<not> isWhitelisted ?u" by code_simp
  have h3: "tryEmbed examplePage ?a (plainMessage []) = Inr (plainMessage [], ?a, [])"
    by code_simp
  from tryEmbed_unlisted_only_ungated[OF h1 h2 h3] h1 h2 h3 show ?thesis by blast
qed

text \<open>
  C1 as stated fails: the host \<open>www.destiny.gg\<close> is not a member of the allow-list, and
  the bigscreen link \<open>#twitch/xqc\<close> on it gets a Twitch card appended to the message.
\<close>

theorem tryEmbed_unlisted_host_counterexample:
  "\<not> whitelistHas ''www.destiny.gg''
   \<and> tryEmbed examplePage
        \<lparr>a_href = ''https://www.destiny.gg/bigscreen#twitch/xqc'', a_textContent = ''stream'',
         a_edggResolvedTco = False\<rparr>
        (plainMessage []) =
      Inr (appendChild (plainMessage [])
             (cardWrap ''edgg-card-tw'' ''https://www.destiny.gg/bigscreen#twitch/xqc'' []),
           \<lparr>a_href = ''https://www.destiny.gg/bigscreen#twitch/xqc'', a_textContent = ''stream'',
            a_edggResolvedTco = False\<rparr>,
           [BigscreenTwitchCard ''xqc''])
   \<and> length (c_wraps (appendChild (plainMessage [])
        (cardWrap ''edgg-card-tw'' ''https://www.destiny.gg/bigscreen#twitch/xqc'' []))) = 1
   \<and> length (c_wraps (plainMessage [])) = 0"
  by code_simp

section \<open>Results on duplicate suppression\<close>








section \<open>Results on the suppression flag\<close>






section \<open>Results on the media pager\<close>

lemma map_of_setDisplay: "map_of (setDisplay k v d) = (map_of d)(k \<mapsto> v)"
  by (induction d) (auto simp: fun_eq_iff)

lemma showLoop_other:
  "n \<notin> it_node ` set its \<Longrightarrow> map_of (showLoop j k its d) n = map_of d n"
  by (induction its arbitrary: k d) (auto simp: map_of_setDisplay)

lemma showLoop_at:
  "distinct (map it_node its) \<Longrightarrow> m < length its \<Longrightarrow>
   map_of (showLoop j k its d) (it_node (its ! m)) =
     Some (if k + int m = j then ''block'' else ''none'')"
proof (induction its arbitrary: k d m)
  case Nil
  then show ?case by simp
next
  case (Cons el rest)
  show ?case
  proof (cases m)
    case 0
    from Cons.prems(1) have "it_node el \<notin> it_node ` set rest" by auto
    then show ?thesis using 0 by (simp add: showLoop_other map_of_setDisplay)
  next
    case (Suc m')
    with Cons.prems have d: "distinct (map it_node rest)" and lt: "m' < length rest" by auto
    have ih: "map_of (showLoop j (k + 1) rest d') (it_node (rest ! m')) =
                Some (if k + 1 + int m' = j then ''block'' else ''none'')" for d'
      by (rule Cons.IH[OF d lt])
    have eq: "(k + 1 + int m' = j) = (k + int (Suc m') = j)" by auto
    show ?thesis unfolding Suc by (simp only: showLoop.simps nth_Cons_Suc ih eq)
  qed
qed

lemma filter_single_index:
  assumes "j < length xs" and "\<And>m. m < length xs \<Longrightarrow> P (xs ! m) \<longleftrightarrow> m = j"
  shows "filter P xs = [xs ! j]"
proof -
  have split: "xs = take j xs @ xs ! j # drop (Suc j) xs"
    using assms(1) by (rule id_take_nth_drop)
  have a: "filter P (take j xs) = []"
    using assms by (auto simp: filter_empty_conv in_set_conv_nth)
  have b: "filter P (drop (Suc j) xs) = []"
    using assms by (auto simp: filter_empty_conv in_set_conv_nth)
  have c: "P (xs ! j)" using assms by simp
  have "filter P xs = filter P (take j xs @ xs ! j # drop (Suc j) xs)"
    using split by simp
  also have "\<dots> = [xs ! j]" using a b c by simp
  finally show ?thesis .
qed

lemma showItem_items: "items (showItem i pg) = items pg"
  by (simp add: showItem_def Let_def)

lemma showItem_idx:
  "items pg \<noteq> [] \<Longrightarrow> idx (showItem i pg) = max 0 (min i (int (length (items pg)) - 1))"
  by (simp add: showItem_def Let_def)

lemma showItem_ok:
  assumes "distinct (map it_node (items pg))" and "items pg \<noteq> []"
  shows "pagerOk (showItem i pg)"
proof -
  let ?n = "int (length (items pg))"
  let ?j = "max 0 (min i (?n - 1))"
  have n: "0 < ?n" using assms(2) by simp
  have j: "0 \<le> ?j" "?j < ?n" using n by auto
  have vis: "visibleItems (showItem i pg) = [items pg ! nat ?j]"
    unfolding visibleItems_def
  proof (simp add: showItem_def Let_def assms(2), rule filter_single_index)
    show "nat ?j < length (items pg)" using j by linarith
  next
    fix m assume m: "m < length (items pg)"
    have "map_of (showLoop ?j 0 (items pg) (display pg)) (it_node (items pg ! m)) =
            Some (if 0 + int m = ?j then ''block'' else ''none'')"
      by (rule showLoop_at[OF assms(1) m])
    moreover have "int m = ?j \<longleftrightarrow> m = nat ?j" using j by linarith
    ultimately show "(map_of (showLoop ?j 0 (items pg) (display pg)) (it_node (items pg ! m)) =
            Some ''block'') = (m = nat ?j)"
      by simp
  qed
  show ?thesis
    unfolding pagerOk_def using j vis assms(2)
    by (simp add: showItem_items showItem_idx)
qed

lemma safePageTo_pager: "snd (safePageTo i wp) = showItem i (snd wp)"
  by (simp add: safePageTo_def Let_def)

lemma handleClick_items: "items (snd (handleClick c wp)) = items (snd wp)"
  by (cases c) (simp_all add: safePageTo_pager showItem_items)

lemma handleClick_ok:
  assumes "distinct (map it_node (items (snd wp)))" and "items (snd wp) \<noteq> []"
    and "pagerOk (snd wp)"
  shows "pagerOk (snd (handleClick c wp))"
  using assms by (cases c) (simp_all add: safePageTo_pager showItem_ok)

lemma fold_handleClick_ok:
  assumes "distinct (map it_node (items (snd wp)))" and "items (snd wp) \<noteq> []"
    and "pagerOk (snd wp)"
  shows "pagerOk (snd (fold handleClick cs wp)) \<and> items (snd (fold handleClick cs wp)) = items (snd wp)"
  using assms
proof (induction cs arbitrary: wp)
  case Nil
  then show ?case by simp
next
  case (Cons c cs)
  have "pagerOk (snd (handleClick c wp))" by (rule handleClick_ok[OF Cons.prems])
  with Cons.IH[of "handleClick c wp"] Cons.prems show ?case
    by (simp add: handleClick_items)
qed

text \<open>
  C5. For a pager that \<open>initTweetMediaPager\<close> set up (so the group has at least two
  items), whose items are toggled through distinct elements, and after any sequence of
  clicks on previous, next or an item: exactly one item is shown and the index is in range;
  previous at index 0 leaves the index at 0 and next at the last index leaves it at the
  last index. The items are toggled through distinct elements in every group the renderer
  builds, since \<open>applySpoilersInRoot\<close> gives each media element a holder of its own.
\<close>

theorem pager_clamps_one_visible:
  assumes "initTweetMediaPager its = Some pg0" and "distinct (map it_node its)"
    and "wp = fold handleClick clicks (w0, pg0)"
  shows "length (visibleItems (snd wp)) = 1
       \<and> 0 \<le> idx (snd wp) \<and> idx (snd wp) \<le> int (length its) - 1
       \<and> (idx (snd wp) = 0 \<longrightarrow> idx (snd (handleClick ClickPrev wp)) = 0)
       \<and> (idx (snd wp) = int (length its) - 1 \<longrightarrow>
            idx (snd (handleClick ClickNext wp)) = int (length its) - 1)"
proof -
  from assms(1) have len: "2 \<le> length its"
    and pg0: "pg0 = showItem 0 \<lparr>items = its, idx = 0, display = [], counterText = (0, 0),
                              prevShown = False, nextShown = False\<rparr>"
    by (auto simp: initTweetMediaPager_def split: if_splits)
  have its0: "items pg0 = its" using pg0 by (simp add: showItem_items)
  have ne: "its \<noteq> []" using len by auto
  have ok0: "pagerOk pg0" unfolding pg0 by (rule showItem_ok) (simp_all add: assms(2) ne)
  have inv: "pagerOk (snd wp) \<and> items (snd wp) = its"
    using fold_handleClick_ok[of "(w0, pg0)" clicks] ok0 its0 assms(2,3) ne by simp
  then have ok: "pagerOk (snd wp)" and its: "items (snd wp) = its" by simp_all
  have prev: "idx (snd (handleClick ClickPrev wp)) = max 0 (min (idx (snd wp) - 1) (int (length its) - 1))"
    using its ne by (simp add: safePageTo_pager showItem_idx)
  have nxt: "idx (snd (handleClick ClickNext wp)) = max 0 (min (idx (snd wp) + 1) (int (length its) - 1))"
    using its ne by (simp add: safePageTo_pager showItem_idx)
  from ok its prev nxt len show ?thesis
    by (auto simp: pagerOk_def)
qed

theorem pager_clamps_one_visible_witness:
  "initTweetMediaPager threeItems = Some threeItemPager
   \<and> distinct (map it_node threeItems)
   \<and> length (visibleItems
        (snd (fold handleClick [ClickNext, ClickItem 1, ClickNext] (restWorld, threeItemPager)))) = 1
   \<and> idx (snd (fold handleClick [ClickNext, ClickItem 1, ClickNext] (restWorld, threeItemPager)))
       = int (length threeItems) - 1
   \<and> idx (snd (handleClick ClickNext
        (fold handleClick [ClickNext, ClickItem 1, ClickNext] (restWorld, threeItemPager))))
       = int (length threeItems) - 1"
proof -
  let ?wp = "fold handleClick [ClickNext, ClickItem 1, ClickNext] (restWorld, threeItemPager)"
  have h1: "initTweetMediaPager threeItems = Some threeItemPager" by code_simp
  have h2: "distinct (map it_node threeItems)" by code_simp
  have h3: "idx (snd ?wp) = int (length threeItems) - 1" by code_simp
  from pager_clamps_one_visible[OF h1 h2 refl, of "[ClickNext, ClickItem 1, ClickNext]" restWorld]
    h1 h2 h3
  show ?thesis by blast
qed

section \<open>Results on the mirror enrichment\<close>








section \<open>Results on tweet media and resolver failures\<close>
















section \<open>Results on the refresh timers\<close>

lemma period_floor: "15000 \<le> max 15000 (toInt32 x)"
  by simp

lemma period_default: "max 15000 (toInt32 (periodOf None)) = 60000"
  by (simp add: periodOf_def toInt32_def)

lemma map_of_fresh_append:
  assumes "list_all (\<lambda>e. fst e < (i::nat)) xs"
  shows "map_of (xs @ [(i, v)]) i = Some v"
proof -
  from assms have "i \<notin> fst ` set xs" by (force simp: list_all_iff)
  then have "map_of xs i = None" by (simp add: map_of_eq_None_iff)
  then show ?thesis by (simp add: map_add_def)
qed

lemma list_all_filter_keep: "list_all P xs \<Longrightarrow> list_all P (filter Q xs)"
  by (induction xs) auto

lemma thumbUpdate_fresh: "freshIds k \<Longrightarrow> freshIds (thumbUpdate env b k)"
  by (auto simp: freshIds_def thumbUpdate_def clearInterval_def list_all_filter_keep
           split: option.splits)

lemma twitchUpdate_fresh: "freshIds k \<Longrightarrow> freshIds (twitchUpdate env ch k)"
  by (auto simp: freshIds_def twitchUpdate_def clearInterval_def Let_def list_all_filter_keep
           split: option.splits)

lemma clearInterval_fresh: "freshIds k \<Longrightarrow> freshIds (clearInterval t k)"
  by (auto simp: freshIds_def clearInterval_def list_all_filter_keep split: option.splits)

lemma thumbUpdate_next: "k_nextTimerId (thumbUpdate env b k) = k_nextTimerId k"
  by (auto simp: thumbUpdate_def clearInterval_def split: option.splits)

lemma twitchUpdate_next: "k_nextTimerId (twitchUpdate env ch k) = k_nextTimerId k"
  by (auto simp: twitchUpdate_def clearInterval_def Let_def split: option.splits)

lemma clearInterval_next: "k_nextTimerId (clearInterval t k) = k_nextTimerId k"
  by (auto simp: clearInterval_def split: option.splits)

lemma start_thumb_armed:
  assumes "baseUrl \<noteq> []" and "freshIds k"
  shows "armed (k_nextTimerId k) (max 15000 (toInt32 (periodOf periodMs))) (ThumbRefresh baseUrl)
           (startThumbAutoRefresh env baseUrl periodMs k)"
proof -
  define k1 where "k1 = (case k_edggThumbTimer k of
                           Some t \<Rightarrow> (if t \<noteq> 0 then clearInterval (Some t) k else k)
                         | None \<Rightarrow> k)"
  define k2 where "k2 = thumbUpdate env baseUrl k1"
  have f1: "freshIds k1" and n1: "k_nextTimerId k1 = k_nextTimerId k"
    using assms(2) by (auto simp: k1_def clearInterval_fresh clearInterval_next split: option.splits)
  have f2: "freshIds k2" and n2: "k_nextTimerId k2 = k_nextTimerId k"
    using f1 n1 by (simp_all add: k2_def thumbUpdate_fresh thumbUpdate_next)
  have s: "startThumbAutoRefresh env baseUrl periodMs k =
             k2\<lparr>k_intervals := k_intervals k2
                    @ [(k_nextTimerId k2, max 15000 (toInt32 (periodOf periodMs)), ThumbRefresh baseUrl)],
                k_nextTimerId := k_nextTimerId k2 + 1,
                k_edggThumbTimer := Some (k_nextTimerId k2)\<rparr>"
    using assms(1) by (simp add: startThumbAutoRefresh_def k1_def k2_def Let_def)
  from f2 have "map_of (k_intervals k2
                    @ [(k_nextTimerId k2, max 15000 (toInt32 (periodOf periodMs)), ThumbRefresh baseUrl)])
                  (k_nextTimerId k2)
                = Some (max 15000 (toInt32 (periodOf periodMs)), ThumbRefresh baseUrl)"
    unfolding freshIds_def by (rule map_of_fresh_append)
  then show ?thesis
    unfolding s armed_def lookupInterval_def using n2 by simp
qed

lemma start_twitch_armed:
  assumes "channel \<noteq> []" and "freshIds k"
  shows "armed (k_nextTimerId k) (max 15000 (toInt32 (periodOf periodMs))) (TwitchRefresh channel)
           (startTwitchThumbAutoRefresh env channel periodMs k)"
proof -
  define k1 where "k1 = (case k_edggTwTimer k of
                           Some t \<Rightarrow> (if t \<noteq> 0 then clearInterval (Some t) k else k)
                         | None \<Rightarrow> k)"
  define k2 where "k2 = twitchUpdate env channel k1"
  have f1: "freshIds k1" and n1: "k_nextTimerId k1 = k_nextTimerId k"
    using assms(2) by (auto simp: k1_def clearInterval_fresh clearInterval_next split: option.splits)
  have f2: "freshIds k2" and n2: "k_nextTimerId k2 = k_nextTimerId k"
    using f1 n1 by (simp_all add: k2_def twitchUpdate_fresh twitchUpdate_next)
  have s: "startTwitchThumbAutoRefresh env channel periodMs k =
             k2\<lparr>k_intervals := k_intervals k2
                    @ [(k_nextTimerId k2, max 15000 (toInt32 (periodOf periodMs)), TwitchRefresh channel)],
                k_nextTimerId := k_nextTimerId k2 + 1,
                k_edggTwTimer := Some (k_nextTimerId k2)\<rparr>"
    using assms(1) by (simp add: startTwitchThumbAutoRefresh_def k1_def k2_def Let_def)
  from f2 have "map_of (k_intervals k2
                    @ [(k_nextTimerId k2, max 15000 (toInt32 (periodOf periodMs)), TwitchRefresh channel)])
                  (k_nextTimerId k2)
                = Some (max 15000 (toInt32 (periodOf periodMs)), TwitchRefresh channel)"
    unfolding freshIds_def by (rule map_of_fresh_append)
  then show ?thesis
    unfolding s armed_def lookupInterval_def using n2 by simp
qed

lemma tick_hidden:
  assumes "armed i p r k" and "k_thumbConnected k" and "\<not> inView env"
  shows "tick env i k = k"
  using assms
  by (cases r) (simp_all add: armed_def tick_def thumbUpdate_def twitchUpdate_def)

lemma map_of_filter_out: "map_of (filter (\<lambda>e. fst e \<noteq> i) xs) i = None"
  by (induction xs) auto

lemma tick_detached:
  assumes "armed i p r k" and "\<not> k_thumbConnected k"
  shows "lookupInterval i (tick env i k) = None \<and> timerField r (tick env i k) = None
         \<and> tick env' i (tick env i k) = tick env i k"
proof -
  have gone: "lookupInterval i (tick env i k) = None \<and> timerField r (tick env i k) = None"
    using assms
    by (cases r)
       (simp_all add: armed_def tick_def thumbUpdate_def twitchUpdate_def clearInterval_def
          lookupInterval_def map_of_filter_out)
  then have "tick env' i (tick env i k) = tick env i k"
    by (simp add: tick_def[of env' i])
  with gone show ?thesis by simp
qed

text \<open>
  C9. A refresh timer started by \<open>startThumbAutoRefresh\<close> or
  \<open>startTwitchThumbAutoRefresh\<close> runs with the period \<open>max(15000, periodMs | 0)\<close>, which is
  at least 15 seconds and is 60 seconds for the default argument. While the thumbnail is
  connected and its card is out of view, a firing of the timer changes nothing: the
  refresh is skipped and the timer stays scheduled. At the first firing that finds the
  thumbnail detached the timer clears itself, and from then on its firing does nothing.
\<close>

theorem refresh_timer_behaviour:
  "(baseUrl \<noteq> [] \<and> freshIds k \<longrightarrow>
      armed (k_nextTimerId k) (max 15000 (toInt32 (periodOf periodMs))) (ThumbRefresh baseUrl)
        (startThumbAutoRefresh env baseUrl periodMs k))
   \<and> (channel \<noteq> [] \<and> freshIds k \<longrightarrow>
      armed (k_nextTimerId k) (max 15000 (toInt32 (periodOf periodMs))) (TwitchRefresh channel)
        (startTwitchThumbAutoRefresh env channel periodMs k))
   \<and> 15000 \<le> max 15000 (toInt32 (periodOf periodMs))
   \<and> max 15000 (toInt32 (periodOf None)) = 60000
   \<and> (armed i p r c \<and> k_thumbConnected c \<and> \<not> inView env \<longrightarrow> tick env i c = c)
   \<and> (armed i p r c \<and> \<not> k_thumbConnected c \<longrightarrow>
        lookupInterval i (tick env i c) = None \<and> timerField r (tick env i c) = None
        \<and> tick env' i (tick env i c) = tick env i c)"
  using start_thumb_armed[of baseUrl k periodMs env] start_twitch_armed[of channel k periodMs env]
    period_floor[of "periodOf periodMs"] period_default tick_hidden[of i p r c env]
    tick_detached[of i p r c env env']
  by blast

theorem refresh_timer_behaviour_witness:
  "''https://i.ytimg.com/vi/abc/hqdefault_live.jpg'' \<noteq> [] \<and> freshIds freshCard
   \<and> armed 1 60000 (ThumbRefresh ''https://i.ytimg.com/vi/abc/hqdefault_live.jpg'')
       (startThumbAutoRefresh shownEnv ''https://i.ytimg.com/vi/abc/hqdefault_live.jpg''
          (Some 60000) freshCard)
   \<and> k_thumbConnected (startThumbAutoRefresh shownEnv
        ''https://i.ytimg.com/vi/abc/hqdefault_live.jpg'' (Some 60000) freshCard)
   \<and> \<not> inView hiddenEnv
   \<and> tick hiddenEnv 1
       (startThumbAutoRefresh shownEnv ''https://i.ytimg.com/vi/abc/hqdefault_live.jpg''
          (Some 60000) freshCard) =
       startThumbAutoRefresh shownEnv ''https://i.ytimg.com/vi/abc/hqdefault_live.jpg''
          (Some 60000) freshCard
   \<and> \<not> k_thumbConnected
         ((startThumbAutoRefresh shownEnv ''https://i.ytimg.com/vi/abc/hqdefault_live.jpg''
            (Some 60000) freshCard)\<lparr>k_thumbConnected := False\<rparr>)
   \<and> lookupInterval 1
       (tick shownEnv 1
          ((startThumbAutoRefresh shownEnv ''https://i.ytimg.com/vi/abc/hqdefault_live.jpg''
              (Some 60000) freshCard)\<lparr>k_thumbConnected := False\<rparr>)) = None"
proof -
  let ?b = "''https://i.ytimg.com/vi/abc/hqdefault_live.jpg''"
  let ?k1 = "startThumbAutoRefresh shownEnv ?b (Some 60000) freshCard"
  let ?k2 = "?k1\<lparr>k_thumbConnected := False\<rparr>"
  have h1: "?b \<noteq> []" by simp
  have h2: "freshIds freshCard" by code_simp
  have h3: "k_nextTimerId freshCard = 1" by (simp add: freshCard_def)
  have h4: "max 15000 (toInt32 (periodOf (Some 60000))) = 60000" by code_simp
  have a1: "armed 1 60000 (ThumbRefresh ?b) ?k1"
    using refresh_timer_behaviour[of ?b freshCard "Some 60000" shownEnv] h1 h2 h3 h4 by simp
  have h5: "k_thumbConnected ?k1" by code_simp
  have h6: "\<not> inView hiddenEnv" by (simp add: hiddenEnv_def)
  have a2: "tick hiddenEnv 1 ?k1 = ?k1"
    using refresh_timer_behaviour[of _ _ _ _ _ 1 60000 "ThumbRefresh ?b" ?k1 hiddenEnv] a1 h5 h6
    by blast
  have h7: "\<not> k_thumbConnected ?k2" by simp
  have a3: "armed 1 60000 (ThumbRefresh ?b) ?k2"
    using a1 by (simp add: armed_def lookupInterval_def)
  have a4: "lookupInterval 1 (tick shownEnv 1 ?k2) = None"
    using refresh_timer_behaviour[of _ _ _ _ _ 1 60000 "ThumbRefresh ?b" ?k2 shownEnv] a3 h7
    by blast
  from h1 h2 a1 h5 h6 a2 h7 a4 show ?thesis by blast
qed

section \<open>Results on the Kick callback\<close>




section \<open>Results on the spoiler overlay\<close>

text \<open>
  In the media block of a tweet card, where every photo has a holder of its own,
  activating the cover of the first photo reveals both: the blur classes and both covers
  are gone and both holders are marked revealed.
\<close>

lemma tweet_spoilers_revealed_together:
  "revealAllInTweet 4 (holdMedia 20 5 (holdMedia 10 4 tweetMediaBlock)) =
     Elem 0 DIV [''edgg-wrap'', ''edgg-left'']
       [Elem 1 DIV [''edgg-embed'', ''edgg-tweet'']
          [Elem 2 DIV [''edgg-tweet-body'']
             [Elem 3 DIV [''edgg-tweet-media'']
                [Elem 10 DIV [''edgg-spoiler'', ''edgg-spoiler-revealed'']
                   [Elem 4 IMG [''edgg-media'', ''edgg-tweet-photo''] []],
                 Elem 20 DIV [''edgg-spoiler'', ''edgg-spoiler-revealed'']
                   [Elem 5 IMG [''edgg-media'', ''edgg-tweet-photo''] []]]]]]"
  by code_simp

text \<open>
  C6 at a direct image embed. With a sensitivity label the wrapper gets the overlay and the
  cover's handlers hold the image. Activating the cover changes nothing: the image has no
  \<open>.edgg-tweet-media\<close> ancestor, so \<open>revealAllInTweet\<close> returns before it looks for any
  spoiler; the image keeps the blur class and the cover stays in the wrapper.
\<close>

theorem direct_image_spoiler_not_revealed:
  "applySpoilerIfNeeded False True 10 1 imageMessage =
     (Elem 0 DIV [''msg-chat'']
        [Elem 1 DIV [''edgg-wrap'', ''edgg-left'', ''edgg-spoiler'']
           [Elem 2 A [''edgg-media-link'']
              [Elem 3 IMG [''edgg-media'', ''edgg-spoiler-blur''] []],
            Elem 10 DIV [''edgg-spoiler-cover'']
              [Elem 11 DIV [''edgg-spoiler-text''] [Elem 12 SPAN [''edgg-spoiler-icon''] []]]]],
      Some 3)
   \<and> revealAllInTweet 3
        (Elem 0 DIV [''msg-chat'']
           [Elem 1 DIV [''edgg-wrap'', ''edgg-left'', ''edgg-spoiler'']
              [Elem 2 A [''edgg-media-link'']
                 [Elem 3 IMG [''edgg-media'', ''edgg-spoiler-blur''] []],
               Elem 10 DIV [''edgg-spoiler-cover'']
                 [Elem 11 DIV [''edgg-spoiler-text''] [Elem 12 SPAN [''edgg-spoiler-icon''] []]]]]) =
       Elem 0 DIV [''msg-chat'']
         [Elem 1 DIV [''edgg-wrap'', ''edgg-left'', ''edgg-spoiler'']
            [Elem 2 A [''edgg-media-link'']
               [Elem 3 IMG [''edgg-media'', ''edgg-spoiler-blur''] []],
             Elem 10 DIV [''edgg-spoiler-cover'']
               [Elem 11 DIV [''edgg-spoiler-text''] [Elem 12 SPAN [''edgg-spoiler-icon''] []]]]]"
  by code_simp

section \<open>Scans of whole messages\<close>

text \<open>
  Scanning a message that links a direct image twice: the second scan meets the original
  anchor and the link \<open>injectBelow\<close> put around the image, and both find the image's marker,
  so the container of the first scan is returned unchanged with its single wrapper.
\<close>

lemma rescan_image_once:
  "maybeEmbedInNode examplePage
     (plainMessage [\<lparr>a_href = ''https://i.imgur.com/abc.png'', a_textContent = ''pic'',
                     a_edggResolvedTco = False\<rparr>]) =
     Inr (injectBelow
            (plainMessage [\<lparr>a_href = ''https://i.imgur.com/abc.png'', a_textContent = ''pic'',
                            a_edggResolvedTco = False\<rparr>])
            (newImg ''https://i.imgur.com/abc.png'') ''https://i.imgur.com/abc.png'' None,
          [DirectImage])
   \<and> maybeEmbedInNode examplePage
       (injectBelow
          (plainMessage [\<lparr>a_href = ''https://i.imgur.com/abc.png'', a_textContent = ''pic'',
                          a_edggResolvedTco = False\<rparr>])
          (newImg ''https://i.imgur.com/abc.png'') ''https://i.imgur.com/abc.png'' None) =
     Inr (injectBelow
            (plainMessage [\<lparr>a_href = ''https://i.imgur.com/abc.png'', a_textContent = ''pic'',
                            a_edggResolvedTco = False\<rparr>])
            (newImg ''https://i.imgur.com/abc.png'') ''https://i.imgur.com/abc.png'' None,
          [DirectImage, DirectImage])
   \<and> length (c_wraps
        (injectBelow
           (plainMessage [\<lparr>a_href = ''https://i.imgur.com/abc.png'', a_textContent = ''pic'',
                           a_edggResolvedTco = False\<rparr>])
           (newImg ''https://i.imgur.com/abc.png'') ''https://i.imgur.com/abc.png'' None)) = 1"
  by code_simp

end
